theory Spec2Isabelle
  imports Main "HOL-Library.Sublist"
begin

section \<open>MATLAB Workspace Viewer: a shallow embedding\<close>

text \<open>
  The extension reads a JSON snapshot written by a MATLAB session, turns every record
  into a tree item, and forwards a few text commands to a terminal. The development
  follows the three TypeScript modules (\<^verbatim>\<open>matlabConnection.ts\<close>, the workspace provider,
  the extension entry point) and the MATLAB producer script \<^verbatim>\<open>export_workspace.m\<close>.

  JavaScript strings are modelled as \<^typ>\<open>string\<close>: one \<^typ>\<open>char\<close> stands for one
  UTF-16 code unit in the range 0..255, so \<^const>\<open>length\<close> is \<^verbatim>\<open>.length\<close> and
  \<^const>\<open>take\<close> is \<^verbatim>\<open>substring(0, n)\<close>.
\<close>

subsection \<open>Values delivered by \<^verbatim>\<open>JSON.parse\<close>\<close>

text \<open>
  The number type \<open>'n\<close> is left open: how the host prints a number and whether a number
  is truthy are primitives of the JavaScript runtime, collected in the record \<open>host\<close>
  together with \<^verbatim>\<open>JSON.parse\<close> itself (\<open>None\<close> stands for the \<^verbatim>\<open>SyntaxError\<close> it throws).
  An object is an association list with distinct keys, read with \<^const>\<open>map_of\<close>.
\<close>

datatype 'n json =
    JNull
  | JBool bool
  | JNum 'n
  | JStr string
  | JArr "'n json list"
  | JObj "(string \<times> 'n json) list"

record 'n host =
  jsonParse :: "string \<Rightarrow> 'n json option"
  numberToString :: "'n \<Rightarrow> string"
  numberToBoolean :: "'n \<Rightarrow> bool"

text \<open>
  The exceptions that occur: \<^verbatim>\<open>JSON.parse\<close> on malformed text, a property read on
  \<^verbatim>\<open>null\<close> or a failed conversion to a primitive, and a failing file read.
\<close>

datatype js_error = SyntaxError | TypeError | SystemError

text \<open>\<^verbatim>\<open>Array.prototype.join\<close> on strings that are already converted.\<close>

fun joinStrings :: "string \<Rightarrow> string list \<Rightarrow> string" where
  "joinStrings sep [] = []"
| "joinStrings sep [x] = x"
| "joinStrings sep (x # y # ys) = x @ sep @ joinStrings sep (y # ys)"

text \<open>
  Evaluating a list of computations from left to right: the first exception ends the
  evaluation. This is how \<^verbatim>\<open>join\<close> converts the elements of an array and how
  \<^verbatim>\<open>Array.prototype.map\<close> runs a callback that may throw.
\<close>

fun collect :: "('e + 'a) list \<Rightarrow> 'e + 'a list" where
  "collect [] = Inr []"
| "collect (Inl e # rs) = Inl e"
| "collect (Inr x # rs) = (case collect rs of Inl e \<Rightarrow> Inl e | Inr xs \<Rightarrow> Inr (x # xs))"

text \<open>
  \<^verbatim>\<open>String(val)\<close>. A nested array is joined with a bare comma, and \<^verbatim>\<open>null\<close> elements of
  an array become the empty string. An object prints as \<^verbatim>\<open>[object Object]\<close> through the
  inherited \<^verbatim>\<open>toString\<close>; when the object has a key \<^verbatim>\<open>toString\<close> of its own, that
  property is not a function and the conversion throws a \<^verbatim>\<open>TypeError\<close>.
\<close>

fun jsString :: "'n host \<Rightarrow> 'n json \<Rightarrow> js_error + string" where
  "jsString h JNull = Inr ''null''"
| "jsString h (JBool b) = Inr (if b then ''true'' else ''false'')"
| "jsString h (JNum n) = Inr (numberToString h n)"
| "jsString h (JStr s) = Inr s"
| "jsString h (JArr xs) =
     (case collect (map (\<lambda>x. case x of JNull \<Rightarrow> Inr [] | _ \<Rightarrow> jsString h x) xs) of
        Inl e \<Rightarrow> Inl e
      | Inr strs \<Rightarrow> Inr (joinStrings '','' strs))"
| "jsString h (JObj kvs) =
     (if map_of kvs ''toString'' \<noteq> None then Inl TypeError else Inr ''[object Object]'')"

definition elementToString :: "'n host \<Rightarrow> 'n json \<Rightarrow> js_error + string" where
  "elementToString h x = (case x of JNull \<Rightarrow> Inr [] | _ \<Rightarrow> jsString h x)"

text \<open>\<^verbatim>\<open>arr.join(sep)\<close> on an array of parsed values.\<close>

definition arrayJoin :: "'n host \<Rightarrow> string \<Rightarrow> 'n json list \<Rightarrow> js_error + string" where
  "arrayJoin h sep xs =
     (case collect (map (elementToString h) xs) of
        Inl e \<Rightarrow> Inl e
      | Inr strs \<Rightarrow> Inr (joinStrings sep strs))"

text \<open>
  \<^verbatim>\<open>arr.slice(0, end)\<close> for an integral \<open>end\<close>: a negative end counts from the back of the
  array.
\<close>

definition sliceFrom0 :: "'a list \<Rightarrow> int \<Rightarrow> 'a list" where
  "sliceFrom0 xs e = (if e < 0 then take (nat (int (length xs) + e)) xs else take (nat e) xs)"

text \<open>Truthiness (\<^verbatim>\<open>ToBoolean\<close>) of a parsed value and of an optional string.\<close>

fun truthy :: "'n host \<Rightarrow> 'n json \<Rightarrow> bool" where
  "truthy h JNull = False"
| "truthy h (JBool b) = b"
| "truthy h (JNum n) = numberToBoolean h n"
| "truthy h (JStr s) = (s \<noteq> [])"
| "truthy h (JArr xs) = True"
| "truthy h (JObj kvs) = True"

definition truthyStr :: "string option \<Rightarrow> bool" where
  "truthyStr v = (case v of None \<Rightarrow> False | Some s \<Rightarrow> s \<noteq> [])"

text \<open>An optional string inside a template literal: \<^verbatim>\<open>undefined\<close> prints as such.\<close>

definition template :: "string option \<Rightarrow> string" where
  "template v = (case v of None \<Rightarrow> ''undefined'' | Some s \<Rightarrow> s)"

text \<open>\<^verbatim>\<open>v || d\<close> for an optional string \<open>v\<close>.\<close>

definition orElse :: "string option \<Rightarrow> string \<Rightarrow> string" where
  "orElse v d = (case v of None \<Rightarrow> d | Some s \<Rightarrow> if s = [] then d else s)"

subsection \<open>Decimal numbers, \<^verbatim>\<open>parseInt\<close> and the size pattern\<close>

definition isDigit :: "char \<Rightarrow> bool" where
  "isDigit c = (c \<in> set ''0123456789'')"

text \<open>
  The class \<^verbatim>\<open>\s\<close> on code units below 256: tab, line feed, vertical tab, form feed,
  carriage return, space and no-break space.
\<close>

definition isSpace :: "char \<Rightarrow> bool" where
  "isSpace c = (c \<in> set [CHR 0x09, CHR 0x0A, CHR 0x0B, CHR 0x0C, CHR 0x0D, CHR '' '', CHR 0xA0])"

definition digitChar :: "nat \<Rightarrow> char" where
  "digitChar d = ''0123456789'' ! d"

definition digitVal :: "char \<Rightarrow> nat" where
  "digitVal c = of_char c - 48"

text \<open>
  How JavaScript prints a non-negative integral number (template literal, \<^verbatim>\<open>%d\<close> in
  MATLAB's \<^verbatim>\<open>sprintf\<close>). For JavaScript this is the printed form as long as the number is
  below \<open>2^53\<close>, where every integer is a double; the statements about printed dimensions
  carry that bound.
\<close>

fun showNat :: "nat \<Rightarrow> string" where
  "showNat n = (if n < 10 then [digitChar n] else showNat (n div 10) @ [digitChar (n mod 10)])"

declare showNat.simps [simp del]

text \<open>
  \<^verbatim>\<open>parseInt\<close> on a captured group of \<^verbatim>\<open>\d+\<close>, a non-empty run of decimal digits: the
  number the digits denote (the double nearest to it, which is the number itself below
  \<open>2^53\<close>).
\<close>

fun parseIntFrom :: "nat \<Rightarrow> string \<Rightarrow> nat" where
  "parseIntFrom acc [] = acc"
| "parseIntFrom acc (c # cs) = parseIntFrom (10 * acc + digitVal c) cs"

definition parseInt :: "string \<Rightarrow> nat" where
  "parseInt ds = parseIntFrom 0 ds"

text \<open>
  \<^verbatim>\<open>/\[(\d+)\s+(\d+)\]/\<close> tried at the start of \<open>s\<close>. The three classes \<^verbatim>\<open>\d\<close>, \<^verbatim>\<open>\s\<close> and
  \<^verbatim>\<open>]\<close> are disjoint, so a greedy run that is cut short by backtracking is followed by a
  character of its own class and the next item cannot match: the only candidate is the
  one with maximal runs. The result holds the two captured groups.
\<close>

definition matchAt :: "string \<Rightarrow> (string \<times> string) option" where
  "matchAt s =
     (case s of
        [] \<Rightarrow> None
      | c # r \<Rightarrow>
          if c \<noteq> CHR ''['' then None
          else
            let d1 = takeWhile isDigit r; r1 = dropWhile isDigit r;
                ws = takeWhile isSpace r1; r2 = dropWhile isSpace r1;
                d2 = takeWhile isDigit r2; r3 = dropWhile isDigit r2
            in if d1 = [] \<or> ws = [] \<or> d2 = [] then None
               else (case r3 of
                       [] \<Rightarrow> None
                     | e # _ \<Rightarrow> if e = CHR '']'' then Some (d1, d2) else None))"

text \<open>\<^verbatim>\<open>size.match(...)\<close>: the pattern is not anchored, the leftmost match wins.\<close>

fun sizeMatch :: "string \<Rightarrow> (string \<times> string) option" where
  "sizeMatch [] = matchAt []"
| "sizeMatch (c # cs) =
     (case matchAt (c # cs) of Some m \<Rightarrow> Some m | None \<Rightarrow> sizeMatch cs)"

subsection \<open>The workspace provider: \<^verbatim>\<open>WorkspaceItem\<close>\<close>

text \<open>
  \<^verbatim>\<open>interface MatlabVariable { name: string; size: string; class: string; value?: any }\<close>.
  Field names carry a prefix because \<open>size\<close>, \<open>class\<close> and \<open>value\<close> are taken in Isabelle.
\<close>

record 'n MatlabVariable =
  v_name :: string
  v_size :: string
  v_class :: string
  v_value :: "'n json option"

datatype TreeItemCollapsibleState = CollapsibleNone | Collapsed | Expanded

text \<open>
  The constructor parameters \<^verbatim>\<open>variableName\<close>, \<^verbatim>\<open>value\<close>, \<^verbatim>\<open>type\<close> and \<^verbatim>\<open>size\<close> are
  optional; \<^verbatim>\<open>contextValue\<close>, \<^verbatim>\<open>tooltip\<close> and \<^verbatim>\<open>description\<close> are assigned only for an
  item that stands for a variable. The icon is not modelled.
\<close>

record WorkspaceItem =
  i_label :: string
  i_collapsibleState :: TreeItemCollapsibleState
  i_variableName :: "string option"
  i_value :: "string option"
  i_type :: "string option"
  i_size :: "string option"
  i_contextValue :: "string option"
  i_tooltip :: "string option"
  i_description :: "string option"

definition getTooltip :: "WorkspaceItem \<Rightarrow> string" where
  "getTooltip this =
     template (i_variableName this) @ [CHR 0x0A] @ ''Type: '' @ template (i_type this)
       @ [CHR 0x0A] @ ''Size: '' @ template (i_size this)
       @ [CHR 0x0A] @ ''Value: '' @ template (i_value this)"

definition getDescription :: "WorkspaceItem \<Rightarrow> string" where
  "getDescription this =
     (if i_type this = Some ''char'' \<or> i_type this = Some ''string''
      then orElse (i_value this) (template (i_size this) @ '' '' @ template (i_type this))
      else
        (case (if truthyStr (i_value this) \<and> truthyStr (i_size this)
               then sizeMatch (the (i_size this)) else None) of
           Some (g1, g2) \<Rightarrow>
             let rows = parseInt g1; cols = parseInt g2
             in if rows = 1 \<and> cols = 1 \<and> i_type this \<noteq> Some ''struct''
                     \<and> i_type this \<noteq> Some ''cell''
                then the (i_value this)
                else showNat rows @ ''x'' @ showNat cols @ '' '' @ template (i_type this)
         | None \<Rightarrow>
             orElse (i_value this) (template (i_size this) @ '' '' @ template (i_type this))))"

text \<open>\<^verbatim>\<open>new WorkspaceItem(label, collapsibleState, variableName, value, type, size)\<close>.\<close>

definition newWorkspaceItem ::
  "string \<Rightarrow> TreeItemCollapsibleState \<Rightarrow> string option \<Rightarrow> string option \<Rightarrow> string option
     \<Rightarrow> string option \<Rightarrow> WorkspaceItem" where
  "newWorkspaceItem label collapsibleState variableName val type sz =
     (let this = \<lparr> i_label = label, i_collapsibleState = collapsibleState,
                   i_variableName = variableName, i_value = val, i_type = type, i_size = sz,
                   i_contextValue = None, i_tooltip = None, i_description = None \<rparr>
      in if truthyStr variableName
         then this \<lparr> i_contextValue := Some ''variable'',
                     i_tooltip := Some (getTooltip this),
                     i_description := Some (getDescription this) \<rparr>
         else this)"

subsection \<open>The workspace provider: \<^verbatim>\<open>formatValue\<close> and \<^verbatim>\<open>getChildren\<close>\<close>

text \<open>
  \<open>maxPreview\<close> is the setting \<^verbatim>\<open>matlabWorkspace.maxArrayPreview\<close>, an integer here (a
  fractional setting is outside the model). An absent value is \<^verbatim>\<open>undefined\<close>.
\<close>

definition formatValue :: "'n host \<Rightarrow> 'n MatlabVariable \<Rightarrow> int \<Rightarrow> js_error + string" where
  "formatValue h variable maxPreview =
     (case v_value variable of
        None \<Rightarrow> Inr []
      | Some JNull \<Rightarrow> Inr []
      | Some (JArr val) \<Rightarrow>
          if int (length val) > maxPreview
          then (case arrayJoin h '', '' (sliceFrom0 val maxPreview) of
                  Inl e \<Rightarrow> Inl e
                | Inr preview \<Rightarrow> Inr (''['' @ preview @ '', ...]''))
          else (case arrayJoin h '', '' val of
                  Inl e \<Rightarrow> Inl e
                | Inr joined \<Rightarrow> Inr (''['' @ joined @ '']''))
      | Some val \<Rightarrow>
          (case jsString h val of
             Inl e \<Rightarrow> Inl e
           | Inr strVal \<Rightarrow>
               Inr (if length strVal > 100 then take 97 strVal @ ''...'' else strVal)))"

text \<open>
  The item that \<^verbatim>\<open>getChildren\<close> builds for one record inside \<^verbatim>\<open>variables.map\<close>:
  \<open>itemOf\<close> is the constructor call for a display value at hand, \<open>variableItem\<close> the whole
  callback.
\<close>

definition itemOf :: "'n MatlabVariable \<Rightarrow> string \<Rightarrow> WorkspaceItem" where
  "itemOf v displayValue =
     newWorkspaceItem (v_name v) CollapsibleNone (Some (v_name v)) (Some displayValue)
       (Some (v_class v)) (Some (v_size v))"

definition variableItem :: "'n host \<Rightarrow> int \<Rightarrow> 'n MatlabVariable \<Rightarrow> js_error + WorkspaceItem" where
  "variableItem h maxArrayPreview v =
     (case formatValue h v maxArrayPreview of
        Inl e \<Rightarrow> Inl e
      | Inr displayValue \<Rightarrow> Inr (itemOf v displayValue))"

subsection \<open>\<^verbatim>\<open>MatlabConnection.getWorkspaceVariables\<close>\<close>

text \<open>
  The file system as the connection sees it: a path is absent, or it exists and
  \<^verbatim>\<open>readFileSync\<close> delivers its text, or it exists and reading throws (a directory, a file
  without read permission).
\<close>

datatype fsnode = File string | Unreadable

text \<open>
  \<^verbatim>\<open>data.variables\<close>: reading a property of \<^verbatim>\<open>null\<close> throws; a primitive or an array has
  no property of that name, an object has it when the key is present. \<open>None\<close> is
  \<^verbatim>\<open>undefined\<close>.
\<close>

fun getProperty :: "'n json \<Rightarrow> string \<Rightarrow> js_error + 'n json option" where
  "getProperty JNull key = Inl TypeError"
| "getProperty (JObj kvs) key = Inr (map_of kvs key)"
| "getProperty _ key = Inr None"

text \<open>
  The template literal \<^verbatim>\<open>`Loaded ${variables.length} variables from workspace`\<close> converts
  \<^verbatim>\<open>variables.length\<close> to a string. For an array, a string, a number or a boolean this is
  a number or \<^verbatim>\<open>undefined\<close> and nothing is thrown; for an object it is the value under
  the key \<^verbatim>\<open>length\<close>, whose conversion may throw.
\<close>

definition lengthInTemplate :: "'n host \<Rightarrow> 'n json \<Rightarrow> js_error + unit" where
  "lengthInTemplate h variables =
     (case variables of
        JObj kvs \<Rightarrow>
          (case map_of kvs ''length'' of
             None \<Rightarrow> Inr ()
           | Some l \<Rightarrow> (case jsString h l of Inl e \<Rightarrow> Inl e | Inr _ \<Rightarrow> Inr ()))
      | _ \<Rightarrow> Inr ())"

text \<open>The body of the \<^verbatim>\<open>try\<close> block; \<open>workspaceFile\<close> is the configured path.\<close>

definition readWorkspaceFile ::
  "'n host \<Rightarrow> (string \<Rightarrow> fsnode option) \<Rightarrow> string \<Rightarrow> js_error + 'n json" where
  "readWorkspaceFile h fs workspaceFile =
     (case fs workspaceFile of
        None \<Rightarrow> Inr (JArr [])
      | Some Unreadable \<Rightarrow> Inl SystemError
      | Some (File content) \<Rightarrow>
          (case jsonParse h content of
             None \<Rightarrow> Inl SyntaxError
           | Some data \<Rightarrow>
               (case getProperty data ''variables'' of
                  Inl e \<Rightarrow> Inl e
                | Inr None \<Rightarrow> Inr (JArr [])
                | Inr (Some variables) \<Rightarrow>
                    if truthy h variables
                    then (case lengthInTemplate h variables of
                            Inl e \<Rightarrow> Inl e
                          | Inr _ \<Rightarrow> Inr variables)
                    else Inr (JArr []))))"

text \<open>
  The method itself: without a configured file it returns \<^verbatim>\<open>[]\<close>, and its \<^verbatim>\<open>catch\<close>
  block turns every exception of the body into \<^verbatim>\<open>[]\<close>. \<open>Inl\<close> would be a rejected
  promise. Lines written to the output channel are left out.
\<close>

definition getWorkspaceVariables ::
  "'n host \<Rightarrow> (string \<Rightarrow> fsnode option) \<Rightarrow> string option \<Rightarrow> js_error + 'n json" where
  "getWorkspaceVariables h fs workspaceFile =
     (if \<not> truthyStr workspaceFile then Inr (JArr [])
      else (case readWorkspaceFile h fs (the workspaceFile) of
              Inl error \<Rightarrow> Inr (JArr [])
            | Inr variables \<Rightarrow> Inr variables))"

text \<open>
  The method is declared to return \<^verbatim>\<open>MatlabVariable[]\<close>, an unchecked cast of the parsed
  data. \<open>asMatlabVariables\<close> reads a parsed value at that type: an array of objects with
  string fields \<^verbatim>\<open>name\<close>, \<^verbatim>\<open>size\<close>, \<^verbatim>\<open>class\<close> and an optional \<^verbatim>\<open>value\<close> of any shape.
\<close>

definition asMatlabVariable :: "'n json \<Rightarrow> 'n MatlabVariable option" where
  "asMatlabVariable j =
     (case j of
        JObj kvs \<Rightarrow>
          (case (map_of kvs ''name'', map_of kvs ''size'', map_of kvs ''class'') of
             (Some (JStr n), Some (JStr s), Some (JStr c)) \<Rightarrow>
               Some \<lparr> v_name = n, v_size = s, v_class = c, v_value = map_of kvs ''value'' \<rparr>
           | _ \<Rightarrow> None)
      | _ \<Rightarrow> None)"

definition asMatlabVariables :: "'n json \<Rightarrow> 'n MatlabVariable list option" where
  "asMatlabVariables j =
     (case j of JArr xs \<Rightarrow> those (map asMatlabVariable xs) | _ \<Rightarrow> None)"

subsection \<open>\<^verbatim>\<open>MatlabWorkspaceProvider.getChildren\<close>\<close>

text \<open>
  The part of \<^verbatim>\<open>getChildren\<close> after the \<^verbatim>\<open>await\<close>. \<open>config\<close> is the setting
  \<^verbatim>\<open>maxArrayPreview\<close>, read with default 5.
\<close>

definition childrenOf ::
  "'n host \<Rightarrow> int option \<Rightarrow> 'n MatlabVariable list \<Rightarrow> js_error + WorkspaceItem list" where
  "childrenOf h config variables =
     (if length variables = 0
      then Inr [newWorkspaceItem ''No variables in workspace'' CollapsibleNone
                  None None None None]
      else
        (let maxArrayPreview = (case config of None \<Rightarrow> 5 | Some n \<Rightarrow> n)
         in collect (map (variableItem h maxArrayPreview) variables)))"

text \<open>
  \<^verbatim>\<open>getChildren(element?)\<close>. \<open>Some (Inr items)\<close> is the resolved promise, \<open>Some (Inl e)\<close> a
  rejected one, and \<open>None\<close> says that the parsed data is not a \<^verbatim>\<open>MatlabVariable[]\<close>: the
  declared types exclude such data and the model does not follow the program there.
\<close>

definition getChildren ::
  "'n host \<Rightarrow> (string \<Rightarrow> fsnode option) \<Rightarrow> string option \<Rightarrow> int option
     \<Rightarrow> WorkspaceItem option \<Rightarrow> (js_error + WorkspaceItem list) option" where
  "getChildren h fs workspaceFile config element =
     (case element of
        Some _ \<Rightarrow> Some (Inr [])
      | None \<Rightarrow>
          (case getWorkspaceVariables h fs workspaceFile of
             Inl e \<Rightarrow> Some (Inl e)
           | Inr raw \<Rightarrow>
               (case asMatlabVariables raw of
                  None \<Rightarrow> None
                | Some variables \<Rightarrow> Some (childrenOf h config variables))))"

subsection \<open>A host for evaluation\<close>

text \<open>
  Concrete instances of the host primitives, used where a statement is evaluated on an
  explicit input: numbers are integers printed in decimal, and \<^verbatim>\<open>JSON.parse\<close> is a table
  from the texts of interest to the values they denote (any other text is a syntax
  error).
\<close>

definition showInt :: "int \<Rightarrow> string" where
  "showInt n = (if n < 0 then ''-'' @ showNat (nat (- n)) else showNat (nat n))"

definition tableHost :: "(string \<times> int json) list \<Rightarrow> int host" where
  "tableHost table =
     \<lparr> jsonParse = map_of table, numberToString = showInt, numberToBoolean = (\<lambda>n. n \<noteq> 0) \<rparr>"

definition singleFile :: "string \<Rightarrow> string \<Rightarrow> string \<Rightarrow> fsnode option" where
  "singleFile path content p = (if p = path then Some (File content) else None)"

text \<open>The snapshot of the documented example, as text and as the value it denotes.\<close>

definition specExampleText :: string where
  \<open>specExampleText =
     ''{"variables":[{"name":"x","size":"[1 1]","class":"double","value":"5"}],"timestamp":"t"}''\<close>

definition specExampleData :: "'n json" where
  "specExampleData =
     JObj [(''variables'',
            JArr [JObj [(''name'', JStr ''x''), (''size'', JStr ''[1 1]''),
                        (''class'', JStr ''double''), (''value'', JStr ''5'')]]),
           (''timestamp'', JStr ''t'')]"

text \<open>The item shown for an empty workspace.\<close>

definition emptyWorkspaceItem :: WorkspaceItem where
  "emptyWorkspaceItem = newWorkspaceItem ''No variables in workspace'' CollapsibleNone None None None None"

subsection \<open>\<^verbatim>\<open>MatlabConnection\<close>: commands sent to the terminal\<close>

text \<open>
  \<^verbatim>\<open>toLowerCase\<close> on code units below 256: the letters A to Z and the upper-case letters
  of Latin-1.
\<close>

definition upperCaseChars :: string where
  "upperCaseChars = ''ABCDEFGHIJKLMNOPQRSTUVWXYZ'' @
     [CHR 0xC0, CHR 0xC1, CHR 0xC2, CHR 0xC3, CHR 0xC4, CHR 0xC5, CHR 0xC6, CHR 0xC7,
      CHR 0xC8, CHR 0xC9, CHR 0xCA, CHR 0xCB, CHR 0xCC, CHR 0xCD, CHR 0xCE, CHR 0xCF,
      CHR 0xD0, CHR 0xD1, CHR 0xD2, CHR 0xD3, CHR 0xD4, CHR 0xD5, CHR 0xD6, CHR 0xD8,
      CHR 0xD9, CHR 0xDA, CHR 0xDB, CHR 0xDC, CHR 0xDD, CHR 0xDE]"

definition lowerCaseChars :: string where
  "lowerCaseChars = ''abcdefghijklmnopqrstuvwxyz'' @
     [CHR 0xE0, CHR 0xE1, CHR 0xE2, CHR 0xE3, CHR 0xE4, CHR 0xE5, CHR 0xE6, CHR 0xE7,
      CHR 0xE8, CHR 0xE9, CHR 0xEA, CHR 0xEB, CHR 0xEC, CHR 0xED, CHR 0xEE, CHR 0xEF,
      CHR 0xF0, CHR 0xF1, CHR 0xF2, CHR 0xF3, CHR 0xF4, CHR 0xF5, CHR 0xF6, CHR 0xF8,
      CHR 0xF9, CHR 0xFA, CHR 0xFB, CHR 0xFC, CHR 0xFD, CHR 0xFE]"

definition toLowerCase :: "string \<Rightarrow> string" where
  "toLowerCase s =
     map (\<lambda>c. case map_of (zip upperCaseChars lowerCaseChars) c of None \<Rightarrow> c | Some l \<Rightarrow> l) s"

text \<open>\<^verbatim>\<open>s.includes(sub)\<close>: \<open>sub\<close> occurs in \<open>s\<close> as a contiguous run.\<close>

fun stringIncludes :: "string \<Rightarrow> string \<Rightarrow> bool" where
  "stringIncludes [] sub = (sub = [])"
| "stringIncludes (c # cs) sub = (prefix sub (c # cs) \<or> stringIncludes cs sub)"

definition isMatlabTerminal :: "string \<Rightarrow> bool" where
  "isMatlabTerminal name = stringIncludes (toLowerCase name) ''matlab''"

text \<open>\<^verbatim>\<open>terminals.find(p)\<close>, as the position of the terminal it returns.\<close>

fun findIndex :: "('a \<Rightarrow> bool) \<Rightarrow> 'a list \<Rightarrow> nat option" where
  "findIndex P [] = None"
| "findIndex P (x # xs) = (if P x then Some 0 else map_option Suc (findIndex P xs))"

text \<open>
  What the editor window offers to the connection: the names of the open terminals, in
  the order of \<^verbatim>\<open>vscode.window.terminals\<close>, and the workspace folders.
\<close>

record window =
  terminalNames :: "string list"
  workspaceFolders :: "string list option"

text \<open>
  An operation is modelled by the sequence of effects it has on the window. A terminal is
  named by its position in \<open>terminalNames\<close>. \<open>SetTimeout\<close> registers a callback that runs
  later: it is not run as part of the operation.
\<close>

datatype timerCallback = CallTriggerWorkspaceExport | RetrySetup

datatype effect =
    SendText nat string
  | ShowTerminal nat
  | ShowErrorMessage string
  | ShowInformationMessage string "string list"
  | ShowWarningMessage string "string list"
  | CreateWebviewPanel string
  | DisposeWatcher
  | SetTimeout timerCallback nat

definition isSendText :: "effect \<Rightarrow> bool" where
  "isSendText e = (case e of SendText _ _ \<Rightarrow> True | _ \<Rightarrow> False)"

definition firstWorkspaceFolder :: "window \<Rightarrow> string option" where
  "firstWorkspaceFolder w =
     (case workspaceFolders w of None \<Rightarrow> None | Some [] \<Rightarrow> None | Some (f # _) \<Rightarrow> Some f)"

definition exportCommand :: string where
  "exportCommand = ''addpath('.vscode'); export_workspace();''"

text \<open>\<^verbatim>\<open>showSetupInstructions\<close> opens a panel; its HTML text is left out.\<close>

definition showSetupInstructions :: "effect list" where
  "showSetupInstructions = [CreateWebviewPanel ''MATLAB Workspace Viewer Setup'']"

text \<open>
  \<^verbatim>\<open>triggerWorkspaceExport\<close>. \<open>answer\<close> is what the user chooses in the information
  message shown when no terminal is found (\<open>None\<close> when the message is dismissed).
\<close>

definition triggerWorkspaceExport :: "window \<Rightarrow> string option \<Rightarrow> effect list" where
  "triggerWorkspaceExport w answer =
     (case firstWorkspaceFolder w of
        None \<Rightarrow> [ShowErrorMessage ''No workspace folder open'']
      | Some workspaceFolder \<Rightarrow>
          (case findIndex isMatlabTerminal (terminalNames w) of
             None \<Rightarrow>
               ShowInformationMessage
                 ''No MATLAB terminal found. Please run MATLAB in the VSCode terminal first.''
                 [''Show Instructions'']
               # (if answer = Some ''Show Instructions'' then showSetupInstructions else [])
           | Some matlabTerminal \<Rightarrow>
               [SendText matlabTerminal exportCommand, ShowTerminal matlabTerminal,
                ShowInformationMessage ''Workspace export command sent to MATLAB'' []]))"

definition clearWorkspace :: "window \<Rightarrow> effect list" where
  "clearWorkspace w =
     (case findIndex isMatlabTerminal (terminalNames w) of
        None \<Rightarrow> [ShowErrorMessage ''No MATLAB terminal found'']
      | Some matlabTerminal \<Rightarrow>
          [SendText matlabTerminal ''clear all'', SetTimeout CallTriggerWorkspaceExport 500])"

definition deleteVariable :: "window \<Rightarrow> string \<Rightarrow> effect list" where
  "deleteVariable w variableName =
     (case findIndex isMatlabTerminal (terminalNames w) of
        None \<Rightarrow> [ShowErrorMessage ''No MATLAB terminal found'']
      | Some matlabTerminal \<Rightarrow>
          [SendText matlabTerminal (''clear '' @ variableName),
           SetTimeout CallTriggerWorkspaceExport 500])"

subsection \<open>The extension entry point: automatic setup of a new terminal\<close>

definition maxAttempts :: nat where
  "maxAttempts = 10"

definition setupCommand :: string where
  "setupCommand = ''addpath('.vscode'); setup_auto_export''"

text \<open>
  \<^verbatim>\<open>trySendSetup\<close> together with the timer callback it registers, as the sequence of
  effects of the whole chain. The variable \<^verbatim>\<open>setupComplete\<close> is set by the file watcher and
  by the user's answer \<^verbatim>\<open>Disable Auto-Setup\<close>, at any moment between two callbacks:
  \<open>completed k\<close> says whether it is set when the timer of attempt \<open>k\<close> fires. The terminal
  is \<open>t\<close>. What the user does with the warning (copying the command) is left out.
\<close>

function trySendSetup :: "(nat \<Rightarrow> bool) \<Rightarrow> nat \<Rightarrow> bool \<Rightarrow> nat \<Rightarrow> effect list" where
  \<open>trySendSetup completed t setupComplete attemptCount =
     (if setupComplete \<or> attemptCount \<ge> maxAttempts
      then DisposeWatcher #
           (if \<not> setupComplete \<and> attemptCount \<ge> maxAttempts
            then [ShowWarningMessage
                    ''MATLAB Workspace Viewer: Auto-setup may have failed. Run "setup_auto_export" in MATLAB manually.''
                    [''Copy Command'']]
            else [])
      else
        (let attemptCount' = attemptCount + 1;
             delay = 2000 + attemptCount' * 1000
         in SetTimeout RetrySetup delay #
            (if \<not> completed attemptCount'
             then SendText t setupCommand #
                  (if attemptCount' = 1
                   then [ShowInformationMessage
                           ''MATLAB Workspace Viewer: Waiting for MATLAB to start...''
                           [''Disable Auto-Setup'']]
                   else []) @
                  trySendSetup completed t (completed attemptCount') attemptCount'
             else [])))\<close>
  by pat_completeness auto
termination
  by (relation "measure (\<lambda>(completed, t, setupComplete, attemptCount). maxAttempts - attemptCount)")
     auto

declare trySendSetup.simps [simp del]

text \<open>
  The handler of \<^verbatim>\<open>onDidOpenTerminal\<close>, which \<^verbatim>\<open>activate\<close> registers when the setting
  \<^verbatim>\<open>autoSetupOnTerminalOpen\<close> is on. It starts the chain for a terminal whose lower-cased
  name contains \<^verbatim>\<open>matlab\<close>, when the setting is still on (\<open>shouldAutoSetup\<close>) and a
  workspace folder is open. The timer that disposes of the watcher after 60 seconds is
  left out: it only limits when \<open>completed\<close> can become true.
\<close>

definition onDidOpenTerminal ::
  "bool \<Rightarrow> window \<Rightarrow> (nat \<Rightarrow> bool) \<Rightarrow> nat \<Rightarrow> string \<Rightarrow> effect list" where
  "onDidOpenTerminal shouldAutoSetup w completed t name =
     (if isMatlabTerminal name \<and> shouldAutoSetup
      then ShowTerminal t #
           (case firstWorkspaceFolder w of
              None \<Rightarrow> []
            | Some workspaceFolder \<Rightarrow> trySendSetup completed t False 0)
      else [])"

text \<open>The delays of the timers a chain registers, and the number of commands it sends.\<close>

definition retryDelays :: "effect list \<Rightarrow> nat list" where
  "retryDelays es = concat (map (\<lambda>e. case e of SetTimeout RetrySetup d \<Rightarrow> [d] | _ \<Rightarrow> []) es)"

definition sentCount :: "effect list \<Rightarrow> nat" where
  "sentCount es = length (filter isSendText es)"

definition warningCount :: "effect list \<Rightarrow> nat" where
  "warningCount es =
     length (filter (\<lambda>e. case e of ShowWarningMessage _ _ \<Rightarrow> True | _ \<Rightarrow> False) es)"

subsection \<open>The producer script \<^verbatim>\<open>export_workspace.m\<close>\<close>

text \<open>
  The MATLAB values the script tells apart. A numeric or logical array is kept abstract
  (\<open>'a\<close>); its element count and its printed form are MATLAB built-ins, collected in the
  record \<open>matlab\<close>. \<^verbatim>\<open>mat2str\<close> raises an error for some arrays (it accepts arrays of at
  most two dimensions): \<open>None\<close> is that error. Text is a character row vector or a string
  scalar that is not missing; character matrices and string arrays with several elements
  are outside the model. A cell array is given by its dimensions, a struct by its field
  names, a table by its height and width, any other value by its class name.
\<close>

record 'a matlab =
  numel :: "'a \<Rightarrow> nat"
  mat2str :: "'a \<Rightarrow> string option"

datatype 'a mvalue =
    Numeric string 'a
  | Logical 'a
  | CharRow string
  | StringScalar string
  | CellArray "nat list"
  | Struct "string list"
  | Table nat nat
  | Other string

text \<open>\<^verbatim>\<open>mat2str\<close> of a row of dimensions, as in \<^verbatim>\<open>mat2str(size(val))\<close>.\<close>

definition mat2strDims :: "nat list \<Rightarrow> string" where
  "mat2strDims ds = ''['' @ joinStrings '' '' (map showNat ds) @ '']''"

text \<open>
  The chain of tests inside the \<^verbatim>\<open>try\<close> block of \<^verbatim>\<open>.vscode/export_workspace.m\<close>, for a
  value that \<^verbatim>\<open>evalin\<close> has delivered; \<open>None\<close> is an error raised on the way. For a string
  scalar \<^verbatim>\<open>length(val)\<close> is 1, the length of the 1-by-1 string array, so the test
  \<^verbatim>\<open>length(val) <= 100\<close> holds and the value is \<^verbatim>\<open>char(val)\<close>, the whole text.
\<close>

fun valueText :: "'a matlab \<Rightarrow> 'a mvalue \<Rightarrow> string option" where
  "valueText m (Numeric cls a) =
     (if numel m a \<le> 10 then mat2str m a
      else Some (cls @ '' ['' @ showNat (numel m a) @ '' elements]''))"
| "valueText m (Logical a) =
     (if numel m a \<le> 10 then mat2str m a
      else Some (''logical'' @ '' ['' @ showNat (numel m a) @ '' elements]''))"
| "valueText m (CharRow s) =
     Some (if length s \<le> 100 then s else take 100 s @ ''...'')"
| "valueText m (StringScalar s) = Some s"
| "valueText m (CellArray ds) = Some (''cell array ['' @ mat2strDims ds @ '']'')"
| "valueText m (Struct fieldNames) =
     Some (''struct with fields: '' @ joinStrings '', '' fieldNames)"
| "valueText m (Table r c) = Some (''table: '' @ showNat r @ ''x'' @ showNat c)"
| "valueText m (Other cls) = Some (''<'' @ cls @ ''>'')"

text \<open>
  The \<^verbatim>\<open>value\<close> field as the script computes it. The \<^verbatim>\<open>try\<close> block holds the call of
  \<^verbatim>\<open>evalin\<close> and the whole chain of tests, and the \<^verbatim>\<open>catch\<close> block writes
  \<^verbatim>\<open><error reading value>\<close>: \<open>val = None\<close> is a failing \<^verbatim>\<open>evalin\<close>.
\<close>

definition exportValue :: "'a matlab \<Rightarrow> 'a mvalue option \<Rightarrow> string" where
  "exportValue m val =
     (case val of
        None \<Rightarrow> ''<error reading value>''
      | Some v \<Rightarrow>
          (case valueText m v of
             None \<Rightarrow> ''<error reading value>''
           | Some text \<Rightarrow> text))"

text \<open>
  The same for the script text that \<^verbatim>\<open>createMatlabHelperScript\<close> writes: its chain of
  tests differs for a struct without fields.
\<close>

definition helperValueText :: "'a matlab \<Rightarrow> 'a mvalue \<Rightarrow> string option" where
  "helperValueText m v =
     (case v of
        Struct fieldNames \<Rightarrow>
          if fieldNames \<noteq> []
          then Some (''struct with fields: '' @ joinStrings '', '' fieldNames)
          else Some ''struct (empty)''
      | _ \<Rightarrow> valueText m v)"

definition helperExportValue :: "'a matlab \<Rightarrow> 'a mvalue option \<Rightarrow> string" where
  "helperExportValue m val =
     (case val of
        None \<Rightarrow> ''<error reading value>''
      | Some v \<Rightarrow>
          (case helperValueText m v of
             None \<Rightarrow> ''<error reading value>''
           | Some text \<Rightarrow> text))"

text \<open>
  An instance for evaluation. An array is a row of naturals, printed as MATLAB prints a
  row vector, or a block of more than two dimensions, given by its dimensions, for which
  \<^verbatim>\<open>mat2str\<close> raises its error.
\<close>

datatype exampleArray = Row "nat list" | Block "nat list"

fun exampleNumel :: "exampleArray \<Rightarrow> nat" where
  "exampleNumel (Row xs) = length xs"
| "exampleNumel (Block ds) = prod_list ds"

fun exampleMat2str :: "exampleArray \<Rightarrow> string option" where
  "exampleMat2str (Row []) = Some ''zeros(1,0)''"
| "exampleMat2str (Row [x]) = Some (showNat x)"
| "exampleMat2str (Row xs) = Some (mat2strDims xs)"
| "exampleMat2str (Block ds) = None"

definition exampleMatlab :: "exampleArray matlab" where
  "exampleMatlab = \<lparr> numel = exampleNumel, mat2str = exampleMat2str \<rparr>"

section \<open>Properties\<close>

subsection \<open>Decimal digits and the size pattern\<close>

lemma digit_cases: "d < 10 \<Longrightarrow> d \<in> {0,1,2,3,4,5,6,7,8,9::nat}" by auto

lemma digitChar_isDigit: "d < 10 \<Longrightarrow> isDigit (digitChar d)"
  using digit_cases[of d] by (auto simp: isDigit_def digitChar_def)

lemma digitVal_digitChar: "d < 10 \<Longrightarrow> digitVal (digitChar d) = d"
  using digit_cases[of d] by (auto simp: digitVal_def digitChar_def)

lemma showNat_nonempty: "showNat n \<noteq> []"
  by (subst showNat.simps) simp

lemma showNat_digits: "\<forall>c \<in> set (showNat n). isDigit c"
proof (induction n rule: showNat.induct)
  case (1 n)
  show ?case
  proof (cases "n < 10")
    case True
    then show ?thesis by (subst showNat.simps) (simp add: digitChar_isDigit)
  next
    case False
    with 1 show ?thesis by (subst showNat.simps) (auto simp: digitChar_isDigit)
  qed
qed

lemma parseIntFrom_append: "parseIntFrom acc (xs @ ys) = parseIntFrom (parseIntFrom acc xs) ys"
  by (induction xs arbitrary: acc) auto

lemma parseInt_showNat: "parseInt (showNat n) = n"
proof (induction n rule: showNat.induct)
  case (1 n)
  show ?case
  proof (cases "n < 10")
    case True
    then show ?thesis by (subst showNat.simps) (simp add: parseInt_def digitVal_digitChar)
  next
    case False
    with 1 have "parseIntFrom 0 (showNat (n div 10)) = n div 10" by (simp add: parseInt_def)
    with False show ?thesis
      by (subst showNat.simps) (simp add: parseInt_def parseIntFrom_append digitVal_digitChar)
  qed
qed

lemma takeWhile_run: "\<forall>c \<in> set ds. P c \<Longrightarrow> \<not> P e \<Longrightarrow> takeWhile P (ds @ e # r) = ds"
  by (induction ds) auto
lemma dropWhile_run: "\<forall>c \<in> set ds. P c \<Longrightarrow> \<not> P e \<Longrightarrow> dropWhile P (ds @ e # r) = e # r"
  by (induction ds) auto

lemma matchAt_shape:
  assumes "d1 \<noteq> []" "\<forall>c \<in> set d1. isDigit c" "ws \<noteq> []" "\<forall>c \<in> set ws. isSpace c"
    "d2 \<noteq> []" "\<forall>c \<in> set d2. isDigit c"
  shows "matchAt (CHR ''['' # d1 @ ws @ d2 @ CHR '']'' # post) = Some (d1, d2)"
proof -
  obtain w ws' where ws: "ws = w # ws'" using assms(3) by (cases ws) auto
  obtain e d2' where d2: "d2 = e # d2'" using assms(5) by (cases d2) auto
  have w: "isSpace w" "\<not> isDigit w" using assms(4) ws by (auto simp: isSpace_def isDigit_def)
  have e: "isDigit e" "\<not> isSpace e" using assms(6) d2 by (auto simp: isSpace_def isDigit_def)
  have b: "\<not> isDigit (CHR '']'')" by (simp add: isDigit_def)
  have 1: "takeWhile isDigit (d1 @ ws @ d2 @ CHR '']'' # post) = d1"
    and 2: "dropWhile isDigit (d1 @ ws @ d2 @ CHR '']'' # post) = ws @ d2 @ CHR '']'' # post"
    using takeWhile_run[OF assms(2) w(2)] dropWhile_run[OF assms(2) w(2)] by (simp_all add: ws)
  have 3: "takeWhile isSpace (ws @ d2 @ CHR '']'' # post) = ws"
    and 4: "dropWhile isSpace (ws @ d2 @ CHR '']'' # post) = d2 @ CHR '']'' # post"
    using takeWhile_run[OF assms(4) e(2)] dropWhile_run[OF assms(4) e(2)] by (simp_all add: d2)
  have 5: "takeWhile isDigit (d2 @ CHR '']'' # post) = d2"
    and 6: "dropWhile isDigit (d2 @ CHR '']'' # post) = CHR '']'' # post"
    using takeWhile_run[OF assms(6) b] dropWhile_run[OF assms(6) b] by simp_all
  show ?thesis
    by (simp add: matchAt_def 1 2 3 4 5 6 assms(1,3,5))
qed

lemma sizeMatch_dims:
  "sizeMatch (''['' @ showNat N @ '' '' @ showNat M @ '']'') = Some (showNat N, showNat M)"
proof -
  have "matchAt (CHR ''['' # showNat N @ '' '' @ showNat M @ CHR '']'' # []) = Some (showNat N, showNat M)"
    by (rule matchAt_shape) (simp_all add: showNat_nonempty showNat_digits isSpace_def)
  then show ?thesis by simp
qed

text \<open>
  The matcher agrees with the meaning of the pattern: \<^verbatim>\<open>match\<close> finds something exactly
  when the string contains, somewhere, an opening bracket, a non-empty run of digits, a
  non-empty run of white space, a non-empty run of digits and a closing bracket.
\<close>

lemma matchAt_Some:
  assumes "matchAt s = Some (d1, d2)"
  shows "\<exists>ws post. s = CHR ''['' # d1 @ ws @ d2 @ CHR '']'' # post
           \<and> d1 \<noteq> [] \<and> (\<forall>c \<in> set d1. isDigit c) \<and> ws \<noteq> [] \<and> (\<forall>c \<in> set ws. isSpace c)
           \<and> d2 \<noteq> [] \<and> (\<forall>c \<in> set d2. isDigit c)"
proof -
  obtain r where s: "s = CHR ''['' # r"
    using assms by (cases s) (auto simp: matchAt_def split: if_splits)
  define r1 where "r1 = dropWhile isDigit r"
  define r2 where "r2 = dropWhile isSpace r1"
  define r3 where "r3 = dropWhile isDigit r2"
  have m: "takeWhile isDigit r = d1 \<and> takeWhile isDigit r2 = d2 \<and> d1 \<noteq> []
             \<and> takeWhile isSpace r1 \<noteq> [] \<and> d2 \<noteq> [] \<and> (\<exists>post. r3 = CHR '']'' # post)"
    using assms unfolding s r1_def r2_def r3_def
    by (auto simp: matchAt_def Let_def split: if_splits list.splits)
  then obtain post where p: "r3 = CHR '']'' # post" by blast
  have "r = d1 @ r1" using m takeWhile_dropWhile_id[of isDigit r] by (simp add: r1_def)
  moreover have "r1 = takeWhile isSpace r1 @ r2" by (simp add: r2_def)
  moreover have "r2 = d2 @ r3" using m takeWhile_dropWhile_id[of isDigit r2] by (simp add: r3_def)
  ultimately have "s = CHR ''['' # d1 @ takeWhile isSpace r1 @ d2 @ CHR '']'' # post"
    using s p by simp
  moreover have "\<forall>c \<in> set d1. isDigit c" "\<forall>c \<in> set d2. isDigit c"
    "\<forall>c \<in> set (takeWhile isSpace r1). isSpace c"
    using m by (auto dest: set_takeWhileD)
  ultimately show ?thesis using m by blast
qed

lemma sizeMatch_Some_iff:
  "(\<exists>m. sizeMatch s = Some m) \<longleftrightarrow> (\<exists>pre t m. s = pre @ t \<and> matchAt t = Some m)"
proof (induction s)
  case Nil
  then show ?case by (simp add: matchAt_def)
next
  case (Cons c cs)
  show ?case
  proof (cases "matchAt (c # cs)")
    case (Some m)
    then have "c # cs = [] @ (c # cs) \<and> matchAt (c # cs) = Some m" by simp
    then show ?thesis using Some by (metis sizeMatch.simps(2) option.simps(5))
  next
    case None
    have "(\<exists>pre t m. c # cs = pre @ t \<and> matchAt t = Some m)
            \<longleftrightarrow> (\<exists>pre t m. cs = pre @ t \<and> matchAt t = Some m)"
    proof
      assume "\<exists>pre t m. c # cs = pre @ t \<and> matchAt t = Some m"
      then obtain pre t m where h: "c # cs = pre @ t" "matchAt t = Some m" by blast
      with None obtain pre' where "pre = c # pre'" by (cases pre) auto
      with h have "cs = pre' @ t \<and> matchAt t = Some m" by simp
      then show "\<exists>pre t m. cs = pre @ t \<and> matchAt t = Some m" by blast
    next
      assume "\<exists>pre t m. cs = pre @ t \<and> matchAt t = Some m"
      then obtain pre t m where "cs = pre @ t" "matchAt t = Some m" by blast
      then have "c # cs = (c # pre) @ t \<and> matchAt t = Some m" by simp
      then show "\<exists>pre t m. c # cs = pre @ t \<and> matchAt t = Some m" by blast
    qed
    then show ?thesis using None Cons.IH by simp
  qed
qed

lemma sizeMatch_None_iff:
  "sizeMatch s = None \<longleftrightarrow>
     \<not> (\<exists>pre d1 ws d2 post.
           s = pre @ ''['' @ d1 @ ws @ d2 @ '']'' @ post
         \<and> d1 \<noteq> [] \<and> (\<forall>c \<in> set d1. isDigit c) \<and> ws \<noteq> [] \<and> (\<forall>c \<in> set ws. isSpace c)
         \<and> d2 \<noteq> [] \<and> (\<forall>c \<in> set d2. isDigit c))"
proof -
  have "(\<exists>m. sizeMatch s = Some m) \<longleftrightarrow>
     (\<exists>pre d1 ws d2 post.
           s = pre @ ''['' @ d1 @ ws @ d2 @ '']'' @ post
         \<and> d1 \<noteq> [] \<and> (\<forall>c \<in> set d1. isDigit c) \<and> ws \<noteq> [] \<and> (\<forall>c \<in> set ws. isSpace c)
         \<and> d2 \<noteq> [] \<and> (\<forall>c \<in> set d2. isDigit c))" (is "?L \<longleftrightarrow> ?R")
  proof
    assume ?L
    then obtain pre t d1 d2 where h: "s = pre @ t" "matchAt t = Some (d1, d2)"
      unfolding sizeMatch_Some_iff by auto
    from matchAt_Some[OF h(2)] obtain ws post where
      "t = CHR ''['' # d1 @ ws @ d2 @ CHR '']'' # post"
      "d1 \<noteq> []" "\<forall>c \<in> set d1. isDigit c" "ws \<noteq> []" "\<forall>c \<in> set ws. isSpace c"
      "d2 \<noteq> []" "\<forall>c \<in> set d2. isDigit c" by blast
    with h(1) have "s = pre @ ''['' @ d1 @ ws @ d2 @ '']'' @ post
         \<and> d1 \<noteq> [] \<and> (\<forall>c \<in> set d1. isDigit c) \<and> ws \<noteq> [] \<and> (\<forall>c \<in> set ws. isSpace c)
         \<and> d2 \<noteq> [] \<and> (\<forall>c \<in> set d2. isDigit c)" by simp
    then show ?R by blast
  next
    assume ?R
    then obtain pre d1 ws d2 post where h:
      "s = pre @ ''['' @ d1 @ ws @ d2 @ '']'' @ post"
      "d1 \<noteq> []" "\<forall>c \<in> set d1. isDigit c" "ws \<noteq> []" "\<forall>c \<in> set ws. isSpace c"
      "d2 \<noteq> []" "\<forall>c \<in> set d2. isDigit c" by blast
    have "matchAt (CHR ''['' # d1 @ ws @ d2 @ CHR '']'' # post) = Some (d1, d2)"
      using h(2-7) by (rule matchAt_shape)
    moreover have "s = pre @ (CHR ''['' # d1 @ ws @ d2 @ CHR '']'' # post)"
      using h(1) by simp
    ultimately show ?L unfolding sizeMatch_Some_iff by blast
  qed
  then show ?thesis by (cases "sizeMatch s") auto
qed

subsection \<open>Conversions that do not throw\<close>

lemma collect_map_Inr: "collect (map Inr ys) = Inr ys"
  by (induction ys) auto

lemma collect_eq_Inr: "collect rs = Inr ys \<longleftrightarrow> rs = map Inr ys"
proof
  show "rs = map Inr ys \<Longrightarrow> collect rs = Inr ys" by (simp add: collect_map_Inr)
  show "collect rs = Inr ys \<Longrightarrow> rs = map Inr ys"
    by (induction rs arbitrary: ys rule: collect.induct) (auto split: sum.splits)
qed


subsection \<open>Descriptions of variable items\<close>

lemma getDescription_cong:
  "i_type a = i_type b \<Longrightarrow> i_value a = i_value b \<Longrightarrow> i_size a = i_size b
     \<Longrightarrow> getDescription a = getDescription b"
  by (simp add: getDescription_def Let_def split: option.split)

lemma itemOf_fields:
  "i_label (itemOf v d) = v_name v"
  "i_variableName (itemOf v d) = Some (v_name v)"
  "i_value (itemOf v d) = Some d"
  "i_type (itemOf v d) = Some (v_class v)"
  "i_size (itemOf v d) = Some (v_size v)"
  by (simp_all add: itemOf_def newWorkspaceItem_def Let_def)

lemma itemOf_description:
  "v_name v \<noteq> [] \<Longrightarrow> i_description (itemOf v d) = Some (getDescription (itemOf v d))"
  by (simp add: itemOf_def newWorkspaceItem_def Let_def truthyStr_def)
     (rule getDescription_cong; simp)

lemma itemOf_no_description: "v_name v = [] \<Longrightarrow> i_description (itemOf v d) = None"
  by (simp add: itemOf_def newWorkspaceItem_def Let_def truthyStr_def)

lemma variableItem_Inr: "formatValue h v mp = Inr d \<Longrightarrow> variableItem h mp v = Inr (itemOf v d)"
  by (simp add: variableItem_def)

lemma formatValue_string:
  "v_value v = Some (JStr s) \<Longrightarrow>
     formatValue h v mp = Inr (if length s > 100 then take 97 s @ ''...'' else s)"
  by (simp add: formatValue_def)

lemma getDescription_text:
  assumes "v_class v = ''char'' \<or> v_class v = ''string''"
  shows "getDescription (itemOf v d) = (if d = [] then v_size v @ '' '' @ v_class v else d)"
  using assms by (auto simp: getDescription_def itemOf_fields orElse_def template_def)

lemma getDescription_unmatched:
  assumes "sizeMatch (v_size v) = None" "v_class v \<noteq> ''char''" "v_class v \<noteq> ''string''"
  shows "getDescription (itemOf v d) = (if d = [] then v_size v @ '' '' @ v_class v else d)"
  using assms by (auto simp: getDescription_def itemOf_fields orElse_def template_def)

lemma getDescription_matched:
  assumes "sizeMatch (v_size v) = Some (g1, g2)" "v_class v \<noteq> ''char''" "v_class v \<noteq> ''string''"
    "d \<noteq> []"
  shows "getDescription (itemOf v d) =
           (if parseInt g1 = 1 \<and> parseInt g2 = 1 \<and> v_class v \<noteq> ''struct'' \<and> v_class v \<noteq> ''cell''
            then d
            else showNat (parseInt g1) @ ''x'' @ showNat (parseInt g2) @ '' '' @ v_class v)"
proof -
  have "v_size v \<noteq> []" using assms(1) by (auto simp: matchAt_def)
  then show ?thesis using assms
    by (simp add: getDescription_def itemOf_fields truthyStr_def template_def Let_def)
qed

subsection \<open>Reading the snapshot\<close>

lemma those_eq_Some: "those ys = Some vs \<longleftrightarrow> ys = map Some vs"
  by (induction ys arbitrary: vs) (auto split: option.splits)

lemma getWorkspaceVariables_array:
  assumes "f \<noteq> []" "fs f = Some (File content)" "jsonParse h content = Some data"
    "getProperty data ''variables'' = Inr (Some (JArr xs))"
  shows "getWorkspaceVariables h fs (Some f) = Inr (JArr xs)"
  using assms
  by (simp add: getWorkspaceVariables_def readWorkspaceFile_def truthyStr_def
        lengthInTemplate_def)

lemma getWorkspaceVariables_never_throws: "\<exists>v. getWorkspaceVariables h fs workspaceFile = Inr v"
  by (simp add: getWorkspaceVariables_def split: sum.split)

lemma getChildren_variables:
  assumes "f \<noteq> []" "fs f = Some (File content)" "jsonParse h content = Some data"
    and "getProperty data ''variables'' = Inr (Some (JArr xs))"
    and "asMatlabVariables (JArr xs) = Some vs"
  shows "getChildren h fs (Some f) config None = Some (childrenOf h config vs)"
  using getWorkspaceVariables_array[of f fs content h data xs] assms
  by (simp add: getChildren_def)

lemma childrenOf_items:
  assumes "vs \<noteq> []" "map (\<lambda>v. formatValue h v (case config of None \<Rightarrow> 5 | Some n \<Rightarrow> n)) vs = map Inr ds"
  shows "childrenOf h config vs = Inr (map2 itemOf vs ds)"
proof -
  let ?mp = "case config of None \<Rightarrow> 5 | Some n \<Rightarrow> n"
  have "map (variableItem h ?mp) vs = map Inr (map2 itemOf vs ds)"
    using assms(2)
  proof (induction vs arbitrary: ds)
    case Nil
    then show ?case by simp
  next
    case (Cons v vs)
    then obtain d ds' where "ds = d # ds'" by (cases ds) auto
    with Cons show ?case by (simp add: variableItem_Inr)
  qed
  then show ?thesis using assms(1) by (simp add: childrenOf_def collect_eq_Inr)
qed

lemma specExample_children:
  assumes "f \<noteq> []" "fs f = Some (File specExampleText)"
    and "jsonParse h specExampleText = Some specExampleData"
  shows "\<exists>item. getChildren h fs (Some f) config None = Some (Inr [item])
           \<and> i_label item = ''x'' \<and> i_description item = Some ''5''"
proof -
  let ?v = "\<lparr> v_name = ''x'', v_size = ''[1 1]'', v_class = ''double'',
               v_value = Some (JStr ''5'') \<rparr> :: 'a MatlabVariable"
  let ?mp = "case config of None \<Rightarrow> 5 | Some n \<Rightarrow> n"
  have "getChildren h fs (Some f) config None = Some (childrenOf h config [?v])"
    using getChildren_variables[of f fs specExampleText h specExampleData _ "[?v]" config] assms
    by (simp add: specExampleData_def asMatlabVariables_def asMatlabVariable_def)
  moreover have "childrenOf h config [?v] = Inr (map2 itemOf [?v] [''5''])"
    by (rule childrenOf_items) (simp_all add: formatValue_def)
  ultimately have c: "getChildren h fs (Some f) config None = Some (Inr [itemOf ?v ''5''])"
    by simp
  have sz: "v_size ?v = ''['' @ showNat 1 @ '' '' @ showNat 1 @ '']''"
    by (simp add: showNat.simps digitChar_def)
  have m: "sizeMatch (v_size ?v) = Some (showNat 1, showNat 1)"
    unfolding sz by (rule sizeMatch_dims)
  have "getDescription (itemOf ?v ''5'') = ''5''"
    using getDescription_matched[OF m, of "''5''"] by (simp add: parseInt_showNat)
  then have "i_description (itemOf ?v ''5'') = Some ''5''"
    using itemOf_description[of ?v "''5''"] by simp
  then show ?thesis using c by (simp add: itemOf_fields)
qed

text \<open>
  Claim C1, as amended. For a well-formed snapshot (the configured file exists, its text
  parses, the parsed value has a \<^verbatim>\<open>variables\<close> array \<open>xs\<close>, every element is a record of the
  declared type, and every value has a display string), \<^verbatim>\<open>getChildren\<close> at the root
  returns one item per element of a non-empty array, in the order of the array and
  labelled with the record's name; for the empty array it returns the single placeholder
  item.
\<close>

theorem getChildren_per_record:
  assumes "f \<noteq> []" "fs f = Some (File content)" "jsonParse h content = Some data"
    and "getProperty data ''variables'' = Inr (Some (JArr xs))"
    and "asMatlabVariables (JArr xs) = Some vs"
    and "map (\<lambda>v. formatValue h v (case config of None \<Rightarrow> 5 | Some n \<Rightarrow> n)) vs = map Inr ds"
  shows "getChildren h fs (Some f) config None =
           Some (Inr (if xs = [] then [emptyWorkspaceItem] else map2 itemOf vs ds))
         \<and> map asMatlabVariable xs = map Some vs
         \<and> length (map2 itemOf vs ds) = length xs
         \<and> map i_label (map2 itemOf vs ds) = map v_name vs"
proof -
  have m: "map asMatlabVariable xs = map Some vs"
    using assms(5) by (simp add: asMatlabVariables_def those_eq_Some)
  then have l: "length vs = length xs" by (metis length_map)
  have ld: "length ds = length vs" using assms(6) by (metis length_map)
  have e: "vs = [] \<longleftrightarrow> xs = []" using l by auto
  have g: "getChildren h fs (Some f) config None = Some (childrenOf h config vs)"
    using assms(1-5) by (rule getChildren_variables)
  have c: "childrenOf h config vs = Inr (map2 itemOf vs ds)" if "vs \<noteq> []"
    using that assms(6) by (rule childrenOf_items)
  have lab: "map i_label (map2 itemOf vs ds) = map v_name vs"
    using ld
  proof (induction vs arbitrary: ds)
    case Nil
    then show ?case by simp
  next
    case (Cons v vs)
    then obtain d ds' where "ds = d # ds'" by (cases ds) auto
    with Cons show ?case by (simp add: itemOf_fields)
  qed
  show ?thesis
  proof (cases "xs = []")
    case True
    then show ?thesis using g e m l ld
      by (simp add: childrenOf_def emptyWorkspaceItem_def)
  next
    case False
    then show ?thesis using g c e m l ld lab by simp
  qed
qed

text \<open>
  Claim C1 as stated fails on the empty array: the snapshot \<^verbatim>\<open>{"variables":[]}\<close> has an
  array of length 0 and \<^verbatim>\<open>getChildren\<close> returns a list of length 1.
\<close>

theorem getChildren_per_record_counterexample:
  \<open>getProperty (JObj [(''variables'', JArr [])] :: int json) ''variables'' = Inr (Some (JArr []))
   \<and> map_option (map_sum id length)
        (getChildren (tableHost [(''{"variables":[]}'', JObj [(''variables'', JArr [])])])
           (singleFile ''ws.json'' ''{"variables":[]}'') (Some ''ws.json'') None None)
      = Some (Inr 1)
   \<and> length ([] :: int json list) = 0\<close>
  by (simp add: getChildren_def getWorkspaceVariables_def readWorkspaceFile_def truthyStr_def
        tableHost_def singleFile_def asMatlabVariables_def childrenOf_def lengthInTemplate_def)

text \<open>
  The amended claim C1 on the snapshot of the documented example.
\<close>

theorem getChildren_per_record_witness:
  "getChildren (tableHost [(specExampleText, specExampleData)])
     (singleFile ''ws.json'' specExampleText) (Some ''ws.json'') None None
   = Some (Inr [itemOf \<lparr> v_name = ''x'', v_size = ''[1 1]'', v_class = ''double'',
                          v_value = Some (JStr ''5'' :: int json) \<rparr> ''5''])"
  using getChildren_per_record[of "''ws.json''" "singleFile ''ws.json'' specExampleText"
      specExampleText "tableHost [(specExampleText, specExampleData)]" specExampleData
      "[JObj [(''name'', JStr ''x''), (''size'', JStr ''[1 1]''),
              (''class'', JStr ''double''), (''value'', JStr ''5'')]]"
      "[\<lparr> v_name = ''x'', v_size = ''[1 1]'', v_class = ''double'',
          v_value = Some (JStr ''5'') \<rparr>]" None "[''5'']"]
  by (simp add: singleFile_def tableHost_def specExampleData_def asMatlabVariables_def
        asMatlabVariable_def formatValue_def)

text \<open>
  Claim C5. When the snapshot parses to a \<^verbatim>\<open>variables\<close> array of length zero,
  \<^verbatim>\<open>getChildren\<close> at the root returns exactly one item, the placeholder labelled
  \<^verbatim>\<open>No variables in workspace\<close>, which stands for no variable and has no description.
\<close>

theorem getChildren_placeholder:
  assumes "f \<noteq> []" "fs f = Some (File content)" "jsonParse h content = Some data"
    and "getProperty data ''variables'' = Inr (Some (JArr []))"
  shows "getChildren h fs (Some f) config None = Some (Inr [emptyWorkspaceItem])
         \<and> i_label emptyWorkspaceItem = ''No variables in workspace''
         \<and> i_variableName emptyWorkspaceItem = None
         \<and> i_description emptyWorkspaceItem = None"
  using getWorkspaceVariables_array[of f fs content h data "[]"] assms
  by (simp add: getChildren_def asMatlabVariables_def childrenOf_def emptyWorkspaceItem_def
        newWorkspaceItem_def truthyStr_def)

text \<open>
  Claim C5 on a snapshot with an empty array and a timestamp.
\<close>

theorem getChildren_placeholder_witness:
  \<open>getChildren (tableHost [(''{"variables":[],"timestamp":"t"}'',
                             JObj [(''variables'', JArr []), (''timestamp'', JStr ''t'')])])
     (singleFile ''ws.json'' ''{"variables":[],"timestamp":"t"}'') (Some ''ws.json'') (Some 3) None
   = Some (Inr [emptyWorkspaceItem])\<close>
  using getChildren_placeholder[of "''ws.json''"
      \<open>singleFile ''ws.json'' ''{"variables":[],"timestamp":"t"}''\<close>
      \<open>''{"variables":[],"timestamp":"t"}''\<close>
      \<open>tableHost [(''{"variables":[],"timestamp":"t"}'',
                             JObj [(''variables'', JArr []), (''timestamp'', JStr ''t'')])]\<close>
      "JObj [(''variables'', JArr []), (''timestamp'', JStr ''t'')]" "Some 3"]
  by (simp add: singleFile_def tableHost_def)

text \<open>
  Claim C2. When the snapshot file is missing, or its text is not parsable JSON,
  \<^verbatim>\<open>getWorkspaceVariables\<close> returns the empty array; the result is \<open>Inr\<close>, no exception
  leaves the method.
\<close>

theorem missing_or_unparsable:
  assumes "fs f = None \<or> (\<exists>content. fs f = Some (File content) \<and> jsonParse h content = None)"
  shows "getWorkspaceVariables h fs (Some f) = Inr (JArr [])"
  using assms
  by (auto simp: getWorkspaceVariables_def readWorkspaceFile_def)

text \<open>
  Claim C2 on a missing file and on a file holding a truncated JSON text.
\<close>

theorem missing_or_unparsable_witness:
  \<open>getWorkspaceVariables (tableHost []) (\<lambda>p. None) (Some ''ws.json'') = Inr (JArr [])
   \<and> getWorkspaceVariables (tableHost []) (singleFile ''ws.json'' ''{"variables":'')
        (Some ''ws.json'') = Inr (JArr [])\<close>
  using missing_or_unparsable[of "\<lambda>p. None" "''ws.json''" "tableHost []"]
    missing_or_unparsable[of \<open>singleFile ''ws.json'' ''{"variables":''\<close> "''ws.json''" "tableHost []"]
  by (simp add: singleFile_def tableHost_def)

subsection \<open>What an item displays\<close>

text \<open>
  Claim C3, as amended. For a record of class \<^verbatim>\<open>char\<close> or \<^verbatim>\<open>string\<close> whose value is a
  string \<open>s\<close>, the display value \<open>d\<close> is \<open>s\<close> itself when \<open>s\<close> has at most 100 characters and
  the first 97 characters followed by \<^verbatim>\<open>...\<close> when \<open>s\<close> is longer; \<^verbatim>\<open>getDescription\<close> yields
  \<open>d\<close> when \<open>s\<close> is not empty, and the size and the class when \<open>s\<close> is empty. The item shows
  this description when the record's name is not empty.
\<close>

theorem text_description:
  assumes "v_class v = ''char'' \<or> v_class v = ''string''" and "v_value v = Some (JStr s)"
    and "d = (if length s \<le> 100 then s else take 97 s @ ''...'')"
  shows "variableItem h mp v = Inr (itemOf v d)
         \<and> getDescription (itemOf v d) = (if s = [] then v_size v @ '' '' @ v_class v else d)
         \<and> (v_name v \<noteq> [] \<longrightarrow> i_description (itemOf v d) = Some (getDescription (itemOf v d)))"
proof -
  have f: "formatValue h v mp = Inr d"
    using assms(2,3) by (simp add: formatValue_string)
  have "d = [] \<longleftrightarrow> s = []" using assms(3) by auto
  then show ?thesis
    using f assms(1) by (simp add: variableItem_Inr getDescription_text itemOf_description)
qed

text \<open>
  Claim C3 as stated fails on the empty text: its length is at most 100, and the
  description is not the value but \<^verbatim>\<open>[0 0] char\<close>.
\<close>

theorem text_description_counterexample:
  "length ('''' :: string) \<le> 100
   \<and> map_sum id i_description (variableItem (tableHost []) 5
        \<lparr> v_name = ''s'', v_size = ''[0 0]'', v_class = ''char'', v_value = Some (JStr '''') \<rparr>)
      = Inr (Some ''[0 0] char'')"
  by (simp add: variableItem_def itemOf_def newWorkspaceItem_def formatValue_def
        getDescription_def truthyStr_def orElse_def template_def)

text \<open>
  The amended claim C3 on a short text and on a text of 101 characters.
\<close>

theorem text_description_witness:
  "map_sum id i_description (variableItem (tableHost []) 5
        \<lparr> v_name = ''s'', v_size = ''[1 5]'', v_class = ''char'', v_value = Some (JStr ''hello'') \<rparr>)
      = Inr (Some ''hello'')
   \<and> map_sum id i_description (variableItem (tableHost []) 5
        \<lparr> v_name = ''t'', v_size = ''[1 101]'', v_class = ''string'',
          v_value = Some (JStr (replicate 101 CHR ''a'')) \<rparr>)
      = Inr (Some (replicate 97 CHR ''a'' @ ''...''))"
  using text_description[of "\<lparr> v_name = ''s'', v_size = ''[1 5]'', v_class = ''char'',
                               v_value = Some (JStr ''hello'') \<rparr>" "''hello''" "''hello''"
                            "tableHost []" 5]
    text_description[of "\<lparr> v_name = ''t'', v_size = ''[1 101]'', v_class = ''string'',
                            v_value = Some (JStr (replicate 101 CHR ''a'')) \<rparr>"
                        "replicate 101 CHR ''a''" "replicate 97 CHR ''a'' @ ''...''"
                        "tableHost []" 5]
  by simp

text \<open>
  Claim C4, as amended. For a record whose size is \<^verbatim>\<open>[N M]\<close> and whose display value \<open>d\<close> is
  not empty: when \<open>N = M = 1\<close> and the class is neither \<^verbatim>\<open>struct\<close> nor \<^verbatim>\<open>cell\<close>, the
  description is \<open>d\<close>; when \<open>N > 1\<close> and \<open>M > 1\<close>, both below \<open>2^53\<close>, and the class is
  neither \<^verbatim>\<open>char\<close> nor \<^verbatim>\<open>string\<close>, the description is the summary \<^verbatim>\<open>NxM class\<close>. The
  item shows the description
  when the record's name is not empty. The snapshot of the documented example gives
  exactly one item, labelled \<^verbatim>\<open>x\<close> with description \<^verbatim>\<open>5\<close>.
\<close>

theorem sized_description:
  "(v_size v = ''['' @ showNat N @ '' '' @ showNat M @ '']''
      \<and> formatValue h v mp = Inr d \<and> d \<noteq> [] \<longrightarrow>
      variableItem h mp v = Inr (itemOf v d)
    \<and> (N = 1 \<and> M = 1 \<and> v_class v \<noteq> ''struct'' \<and> v_class v \<noteq> ''cell'' \<longrightarrow>
         getDescription (itemOf v d) = d)
    \<and> (1 < N \<and> 1 < M \<and> N < 2 ^ 53 \<and> M < 2 ^ 53
         \<and> v_class v \<noteq> ''char'' \<and> v_class v \<noteq> ''string'' \<longrightarrow>
         getDescription (itemOf v d) = showNat N @ ''x'' @ showNat M @ '' '' @ v_class v)
    \<and> (v_name v \<noteq> [] \<longrightarrow> i_description (itemOf v d) = Some (getDescription (itemOf v d))))
   \<and> (f \<noteq> [] \<and> fs f = Some (File specExampleText)
        \<and> jsonParse h specExampleText = Some specExampleData \<longrightarrow>
        (\<exists>item. getChildren h fs (Some f) config None = Some (Inr [item])
           \<and> i_label item = ''x'' \<and> i_description item = Some ''5''))"
proof -
  have a: "getDescription (itemOf v d) = d"
    if "v_size v = ''['' @ showNat N @ '' '' @ showNat M @ '']''" "d \<noteq> []"
      "N = 1" "M = 1" "v_class v \<noteq> ''struct''" "v_class v \<noteq> ''cell''"
  proof (cases "v_class v = ''char'' \<or> v_class v = ''string''")
    case True
    then show ?thesis using that(2) by (simp add: getDescription_text)
  next
    case False
    have m: "sizeMatch (v_size v) = Some (showNat N, showNat M)"
      using that(1) sizeMatch_dims by simp
    show ?thesis using False that getDescription_matched[OF m, of d]
      by (simp add: parseInt_showNat)
  qed
  have b: "getDescription (itemOf v d) = showNat N @ ''x'' @ showNat M @ '' '' @ v_class v"
    if "v_size v = ''['' @ showNat N @ '' '' @ showNat M @ '']''" "d \<noteq> []"
      "1 < N" "1 < M" "v_class v \<noteq> ''char''" "v_class v \<noteq> ''string''"
  proof -
    have m: "sizeMatch (v_size v) = Some (showNat N, showNat M)"
      using that(1) sizeMatch_dims by simp
    show ?thesis using that getDescription_matched[OF m, of d]
      by (simp add: parseInt_showNat)
  qed
  show ?thesis using a b specExample_children[of f fs h config]
    by (simp add: itemOf_description variableItem_Inr)
qed

text \<open>
  Claim C4 as stated fails on a 2-by-2 character matrix: the value is defined, the size is
  \<^verbatim>\<open>[2 2]\<close>, and the description is the formatted value, not the summary \<^verbatim>\<open>2x2 char\<close>.
\<close>

theorem sized_description_counterexample:
  "v_size \<lparr> v_name = ''c'', v_size = ''[2 2]'', v_class = ''char'',
            v_value = Some (JArr [JStr ''ab'', JStr ''cd'' :: int json]) \<rparr>
     = ''['' @ showNat 2 @ '' '' @ showNat 2 @ '']''
   \<and> map_sum id i_description (variableItem (tableHost []) 5
        \<lparr> v_name = ''c'', v_size = ''[2 2]'', v_class = ''char'',
          v_value = Some (JArr [JStr ''ab'', JStr ''cd'']) \<rparr>)
      = Inr (Some ''[ab, cd]'')
   \<and> showNat 2 @ ''x'' @ showNat 2 @ '' '' @ ''char'' = ''2x2 char''"
  by (simp add: variableItem_def itemOf_def newWorkspaceItem_def formatValue_def
        getDescription_def truthyStr_def orElse_def template_def arrayJoin_def
        elementToString_def showNat.simps digitChar_def Let_def)

text \<open>
  The amended claim C4 on a scalar, on a 3-by-4 matrix and on the documented example.
\<close>

theorem sized_description_witness:
  "map_sum id i_description (variableItem (tableHost [(specExampleText, specExampleData)]) 5
        \<lparr> v_name = ''x'', v_size = ''[1 1]'', v_class = ''double'', v_value = Some (JStr ''5'') \<rparr>)
      = Inr (Some ''5'')
   \<and> map_sum id i_description (variableItem (tableHost [(specExampleText, specExampleData)]) 5
        \<lparr> v_name = ''A'', v_size = ''[3 4]'', v_class = ''double'',
          v_value = Some (JStr ''double [12 elements]'') \<rparr>)
      = Inr (Some ''3x4 double'')
   \<and> (\<exists>item. getChildren (tableHost [(specExampleText, specExampleData)])
                 (singleFile ''ws.json'' specExampleText) (Some ''ws.json'') None None
               = Some (Inr [item])
           \<and> i_label item = ''x'' \<and> i_description item = Some ''5'')"
  using sized_description[of "\<lparr> v_name = ''x'', v_size = ''[1 1]'', v_class = ''double'',
                               v_value = Some (JStr ''5'') \<rparr>" 1 1
                             "tableHost [(specExampleText, specExampleData)]" 5 "''5''"
                             "''ws.json''" "singleFile ''ws.json'' specExampleText" None]
    sized_description[of "\<lparr> v_name = ''A'', v_size = ''[3 4]'', v_class = ''double'',
                             v_value = Some (JStr ''double [12 elements]'') \<rparr>" 3 4
                         "tableHost [(specExampleText, specExampleData)]" 5
                         "''double [12 elements]''"
                         "''ws.json''" "singleFile ''ws.json'' specExampleText" None]
  by (simp add: showNat.simps digitChar_def formatValue_def singleFile_def tableHost_def)

text \<open>
  Claim C10. For a record whose size does not match the pattern, whose class is neither
  \<^verbatim>\<open>char\<close> nor \<^verbatim>\<open>string\<close> and whose display value is \<open>d\<close>, \<^verbatim>\<open>getDescription\<close> yields \<open>d\<close>, or
  the size and the class when \<open>d\<close> is empty; no summary built from parsed dimensions is
  produced. The item shows this description when the record's name is not empty.
\<close>

theorem unmatched_description:
  assumes "sizeMatch (v_size v) = None" "v_class v \<noteq> ''char''" "v_class v \<noteq> ''string''"
    and "formatValue h v mp = Inr d"
  shows "variableItem h mp v = Inr (itemOf v d)
         \<and> getDescription (itemOf v d) = (if d = [] then v_size v @ '' '' @ v_class v else d)
         \<and> (v_name v \<noteq> [] \<longrightarrow> i_description (itemOf v d) = Some (getDescription (itemOf v d)))"
  using assms by (simp add: getDescription_unmatched itemOf_description variableItem_Inr)

text \<open>
  Claim C10 on the three-dimensional size \<^verbatim>\<open>[2 3 4]\<close>, with and without a value.
\<close>

theorem unmatched_description_witness:
  "sizeMatch ''[2 3 4]'' = None
   \<and> map_sum id i_description (variableItem (tableHost []) 5
        \<lparr> v_name = ''T'', v_size = ''[2 3 4]'', v_class = ''double'',
          v_value = Some (JStr ''double [24 elements]'') \<rparr>)
      = Inr (Some ''double [24 elements]'')
   \<and> map_sum id i_description (variableItem (tableHost []) 5
        \<lparr> v_name = ''U'', v_size = ''[2 3 4]'', v_class = ''double'', v_value = None \<rparr>)
      = Inr (Some ''[2 3 4] double'')"
  using unmatched_description[of "\<lparr> v_name = ''T'', v_size = ''[2 3 4]'', v_class = ''double'',
          v_value = Some (JStr ''double [24 elements]'') \<rparr>" "tableHost []" 5
          "''double [24 elements]''"]
    unmatched_description[of "\<lparr> v_name = ''U'', v_size = ''[2 3 4]'', v_class = ''double'',
          v_value = None \<rparr> :: int MatlabVariable" "tableHost []" 5 "[]"]
  by (simp add: matchAt_def isDigit_def isSpace_def formatValue_def)



text \<open>
  A negative preview length is passed to \<^verbatim>\<open>slice\<close> as it is and counts from the back of
  the array.
\<close>

lemma formatValue_negative_preview:
  "formatValue (tableHost [])
     \<lparr> v_name = ''y'', v_size = ''[1 3]'', v_class = ''double'',
       v_value = Some (JArr [JNum 1, JNum 2, JNum 3]) \<rparr> (- 1) = Inr ''[1, 2, ...]''"
  by (simp add: formatValue_def sliceFrom0_def arrayJoin_def elementToString_def tableHost_def
        showInt_def showNat.simps digitChar_def)

text \<open>
  An object with a key \<^verbatim>\<open>toString\<close> has no display string: \<^verbatim>\<open>formatValue\<close> throws, and so
  does \<^verbatim>\<open>getChildren\<close> for a snapshot that holds such a value.
\<close>

lemma formatValue_throws:
  "formatValue (tableHost [])
     \<lparr> v_name = ''o'', v_size = ''[1 1]'', v_class = ''struct'',
       v_value = Some (JObj [(''toString'', JNum 1)]) \<rparr> 5 = Inl TypeError"
  by (simp add: formatValue_def)

subsection \<open>Commands sent to the terminal\<close>

lemma findIndex_Some:
  "findIndex P xs = Some i \<Longrightarrow> i < length xs \<and> P (xs ! i) \<and> (\<forall>j<i. \<not> P (xs ! j))"
proof (induction xs arbitrary: i)
  case Nil
  then show ?case by simp
next
  case (Cons x xs)
  show ?case
  proof (cases "P x")
    case True
    with Cons.prems show ?thesis by simp
  next
    case False
    with Cons.prems obtain k where k: "findIndex P xs = Some k" "i = Suc k" by auto
    from Cons.IH[OF k(1)] False k(2) show ?thesis
      by (auto simp: nth_Cons split: nat.splits)
  qed
qed

lemma findIndex_None: "findIndex P xs = None \<longleftrightarrow> (\<forall>x \<in> set xs. \<not> P x)"
  by (induction xs) auto

lemma stringIncludes_sublist: "stringIncludes s sub \<longleftrightarrow> sublist sub s"
  by (induction s) (auto simp: sublist_Cons_right)

lemma exportCommand_suffix: "suffix ''export_workspace();'' exportCommand"
  by (simp add: exportCommand_def suffix_def)

lemma clearWorkspace_found:
  "findIndex isMatlabTerminal (terminalNames w) = Some i \<Longrightarrow>
     clearWorkspace w = [SendText i ''clear all'', SetTimeout CallTriggerWorkspaceExport 500]"
  by (simp add: clearWorkspace_def)

lemma deleteVariable_found:
  "findIndex isMatlabTerminal (terminalNames w) = Some i \<Longrightarrow>
     deleteVariable w name =
       [SendText i (''clear '' @ name), SetTimeout CallTriggerWorkspaceExport 500]"
  by (simp add: deleteVariable_def)

lemma triggerWorkspaceExport_found:
  "findIndex isMatlabTerminal (terminalNames w) = Some i \<Longrightarrow> firstWorkspaceFolder w \<noteq> None \<Longrightarrow>
     triggerWorkspaceExport w answer =
       [SendText i exportCommand, ShowTerminal i,
        ShowInformationMessage ''Workspace export command sent to MATLAB'' []]"
  by (auto simp: triggerWorkspaceExport_def)

lemma no_terminal:
  assumes "findIndex isMatlabTerminal (terminalNames w) = None"
  shows "clearWorkspace w = [ShowErrorMessage ''No MATLAB terminal found'']"
    and "deleteVariable w name = [ShowErrorMessage ''No MATLAB terminal found'']"
    and "triggerWorkspaceExport w answer =
          (if firstWorkspaceFolder w = None then [ShowErrorMessage ''No workspace folder open'']
           else ShowInformationMessage
                  ''No MATLAB terminal found. Please run MATLAB in the VSCode terminal first.''
                  [''Show Instructions'']
                # (if answer = Some ''Show Instructions''
                   then [CreateWebviewPanel ''MATLAB Workspace Viewer Setup''] else []))"
  using assms
  by (auto simp: clearWorkspace_def deleteVariable_def triggerWorkspaceExport_def
        showSetupInstructions_def)

text \<open>
  Claim C7, as amended. When \<^verbatim>\<open>find\<close> returns terminal \<open>i\<close>, a terminal whose lower-cased
  name contains \<^verbatim>\<open>matlab\<close>: \<^verbatim>\<open>clearWorkspace\<close> sends it exactly \<^verbatim>\<open>clear all\<close>,
  \<^verbatim>\<open>deleteVariable\<close> sends it exactly \<^verbatim>\<open>clear \<close> followed by the name, each then registers
  the export after 500 ms, and \<^verbatim>\<open>triggerWorkspaceExport\<close>, when a workspace folder is open,
  sends it one text that ends in \<^verbatim>\<open>export_workspace();\<close>. When no terminal has such a name,
  each operation shows one message and sends nothing; \<^verbatim>\<open>triggerWorkspaceExport\<close> also opens
  the instructions panel when the user asks for it. Without a workspace folder
  \<^verbatim>\<open>triggerWorkspaceExport\<close> only shows an error message.
\<close>

theorem terminal_commands:
  "(findIndex isMatlabTerminal (terminalNames w) = Some i \<longrightarrow>
      i < length (terminalNames w)
    \<and> sublist ''matlab'' (toLowerCase (terminalNames w ! i))
    \<and> clearWorkspace w = [SendText i ''clear all'', SetTimeout CallTriggerWorkspaceExport 500]
    \<and> deleteVariable w name =
        [SendText i (''clear '' @ name), SetTimeout CallTriggerWorkspaceExport 500]
    \<and> (firstWorkspaceFolder w \<noteq> None \<longrightarrow>
          triggerWorkspaceExport w answer =
            [SendText i exportCommand, ShowTerminal i,
             ShowInformationMessage ''Workspace export command sent to MATLAB'' []]
        \<and> suffix ''export_workspace();'' exportCommand))
   \<and> ((\<forall>n \<in> set (terminalNames w). \<not> sublist ''matlab'' (toLowerCase n)) \<longrightarrow>
        clearWorkspace w = [ShowErrorMessage ''No MATLAB terminal found'']
      \<and> deleteVariable w name = [ShowErrorMessage ''No MATLAB terminal found'']
      \<and> triggerWorkspaceExport w answer =
          (if firstWorkspaceFolder w = None then [ShowErrorMessage ''No workspace folder open'']
           else ShowInformationMessage
                  ''No MATLAB terminal found. Please run MATLAB in the VSCode terminal first.''
                  [''Show Instructions'']
                # (if answer = Some ''Show Instructions''
                   then [CreateWebviewPanel ''MATLAB Workspace Viewer Setup''] else [])))
   \<and> (firstWorkspaceFolder w = None \<longrightarrow>
        triggerWorkspaceExport w answer = [ShowErrorMessage ''No workspace folder open''])"
proof -
  have a: "i < length (terminalNames w) \<and> sublist ''matlab'' (toLowerCase (terminalNames w ! i))"
    if "findIndex isMatlabTerminal (terminalNames w) = Some i"
    using findIndex_Some[OF that] by (simp add: isMatlabTerminal_def stringIncludes_sublist)
  have n: "findIndex isMatlabTerminal (terminalNames w) = None"
    if "\<forall>n \<in> set (terminalNames w). \<not> sublist ''matlab'' (toLowerCase n)"
    using that by (simp add: findIndex_None isMatlabTerminal_def stringIncludes_sublist)
  have f: "triggerWorkspaceExport w answer = [ShowErrorMessage ''No workspace folder open'']"
    if "firstWorkspaceFolder w = None"
    using that by (simp add: triggerWorkspaceExport_def)
  have c: "clearWorkspace w = [ShowErrorMessage ''No MATLAB terminal found'']
      \<and> deleteVariable w name = [ShowErrorMessage ''No MATLAB terminal found'']
      \<and> triggerWorkspaceExport w answer =
          (if firstWorkspaceFolder w = None then [ShowErrorMessage ''No workspace folder open'']
           else ShowInformationMessage
                  ''No MATLAB terminal found. Please run MATLAB in the VSCode terminal first.''
                  [''Show Instructions'']
                # (if answer = Some ''Show Instructions''
                   then [CreateWebviewPanel ''MATLAB Workspace Viewer Setup''] else []))"
    if "\<forall>n \<in> set (terminalNames w). \<not> sublist ''matlab'' (toLowerCase n)"
    using no_terminal[OF n[OF that]] by simp
  show ?thesis
    using a clearWorkspace_found[of w i] deleteVariable_found[of w i name]
      triggerWorkspaceExport_found[of w i answer] exportCommand_suffix c f
    by (intro conjI impI) simp_all
qed

text \<open>
  Claim C7 as stated fails in two places: with a terminal named \<^verbatim>\<open>matlab\<close> and no workspace
  folder, \<^verbatim>\<open>triggerWorkspaceExport\<close> sends nothing; without such a terminal and with the
  answer \<^verbatim>\<open>Show Instructions\<close>, it opens a panel besides showing the message.
\<close>

theorem terminal_commands_counterexample:
  "findIndex isMatlabTerminal (terminalNames \<lparr> terminalNames = [''matlab''], workspaceFolders = None \<rparr>)
     = Some 0
   \<and> triggerWorkspaceExport \<lparr> terminalNames = [''matlab''], workspaceFolders = None \<rparr> None
     = [ShowErrorMessage ''No workspace folder open'']
   \<and> triggerWorkspaceExport \<lparr> terminalNames = [''bash''], workspaceFolders = Some [''/w''] \<rparr>
        (Some ''Show Instructions'')
     = [ShowInformationMessage
          ''No MATLAB terminal found. Please run MATLAB in the VSCode terminal first.''
          [''Show Instructions''],
        CreateWebviewPanel ''MATLAB Workspace Viewer Setup'']"
  by (simp add: triggerWorkspaceExport_def firstWorkspaceFolder_def isMatlabTerminal_def
        toLowerCase_def upperCaseChars_def lowerCaseChars_def showSetupInstructions_def)

text \<open>
  The amended claim C7 on a window with two terminals, and on one without a MATLAB
  terminal.
\<close>

theorem terminal_commands_witness:
  "clearWorkspace \<lparr> terminalNames = [''bash'', ''MATLAB R2024a''], workspaceFolders = Some [''/w''] \<rparr>
     = [SendText 1 ''clear all'', SetTimeout CallTriggerWorkspaceExport 500]
   \<and> deleteVariable \<lparr> terminalNames = [''bash'', ''MATLAB R2024a''], workspaceFolders = Some [''/w''] \<rparr> ''x''
     = [SendText 1 ''clear x'', SetTimeout CallTriggerWorkspaceExport 500]
   \<and> triggerWorkspaceExport \<lparr> terminalNames = [''bash'', ''MATLAB R2024a''], workspaceFolders = Some [''/w''] \<rparr> None
     = [SendText 1 ''addpath('.vscode'); export_workspace();'', ShowTerminal 1,
        ShowInformationMessage ''Workspace export command sent to MATLAB'' []]
   \<and> clearWorkspace \<lparr> terminalNames = [''bash''], workspaceFolders = Some [''/w''] \<rparr>
     = [ShowErrorMessage ''No MATLAB terminal found'']"
proof -
  let ?w = "\<lparr> terminalNames = [''bash'', ''MATLAB R2024a''], workspaceFolders = Some [''/w''] \<rparr>"
  let ?u = "\<lparr> terminalNames = [''bash''], workspaceFolders = Some [''/w''] \<rparr>"
  have 1: "findIndex isMatlabTerminal (terminalNames ?w) = Some 1"
    by (simp add: isMatlabTerminal_def toLowerCase_def upperCaseChars_def lowerCaseChars_def)
  have 2: "firstWorkspaceFolder ?w \<noteq> None" by (simp add: firstWorkspaceFolder_def)
  have 3: "\<forall>n \<in> set (terminalNames ?u). \<not> sublist ''matlab'' (toLowerCase n)"
    by (simp add: stringIncludes_sublist[symmetric] toLowerCase_def upperCaseChars_def
          lowerCaseChars_def)
  show ?thesis
    using terminal_commands[of ?w 1 "''x''" None] terminal_commands[of ?u 0 "''x''" None] 1 2 3
    by (simp add: exportCommand_def)
qed

subsection \<open>The retry chain of the automatic setup\<close>

lemma sentCount_simps:
  "sentCount [] = 0"
  "sentCount (SendText t c # es) = Suc (sentCount es)"
  "sentCount (SetTimeout cb d # es) = sentCount es"
  "sentCount (DisposeWatcher # es) = sentCount es"
  "sentCount (ShowWarningMessage a b # es) = sentCount es"
  "sentCount (ShowInformationMessage a b # es) = sentCount es"
  "sentCount (xs @ ys) = sentCount xs + sentCount ys"
  by (simp_all add: sentCount_def isSendText_def)

lemma warningCount_simps:
  "warningCount [] = 0"
  "warningCount (SendText t c # es) = warningCount es"
  "warningCount (SetTimeout cb d # es) = warningCount es"
  "warningCount (DisposeWatcher # es) = warningCount es"
  "warningCount (ShowWarningMessage a b # es) = Suc (warningCount es)"
  "warningCount (ShowInformationMessage a b # es) = warningCount es"
  "warningCount (xs @ ys) = warningCount xs + warningCount ys"
  by (simp_all add: warningCount_def)

lemma retryDelays_simps:
  "retryDelays [] = []"
  "retryDelays (SendText t c # es) = retryDelays es"
  "retryDelays (SetTimeout RetrySetup d # es) = d # retryDelays es"
  "retryDelays (DisposeWatcher # es) = retryDelays es"
  "retryDelays (ShowWarningMessage a b # es) = retryDelays es"
  "retryDelays (ShowInformationMessage a b # es) = retryDelays es"
  "retryDelays (xs @ ys) = retryDelays xs @ retryDelays ys"
  by (simp_all add: retryDelays_def)

lemma trySendSetup_stop:
  "setupComplete \<or> attemptCount \<ge> maxAttempts \<Longrightarrow>
     sentCount (trySendSetup completed t setupComplete attemptCount) = 0
   \<and> retryDelays (trySendSetup completed t setupComplete attemptCount) = []
   \<and> warningCount (trySendSetup completed t setupComplete attemptCount)
       = (if setupComplete then 0 else 1)"
  by (subst (1 2 3) trySendSetup.simps)
     (auto simp: sentCount_simps retryDelays_simps warningCount_simps)

lemma trySendSetup_step:
  assumes "\<not> setupComplete" "attemptCount < maxAttempts"
  shows "trySendSetup completed t setupComplete attemptCount =
           SetTimeout RetrySetup (2000 + Suc attemptCount * 1000) #
           (if completed (Suc attemptCount) then []
            else SendText t setupCommand #
                 (if attemptCount = 0
                  then [ShowInformationMessage
                          ''MATLAB Workspace Viewer: Waiting for MATLAB to start...''
                          [''Disable Auto-Setup'']]
                  else []) @
                 trySendSetup completed t False (Suc attemptCount))"
  using assms by (subst trySendSetup.simps) (simp add: Let_def)

lemma trySendSetup_counts:
  assumes "\<not> setupComplete" "attemptCount < maxAttempts"
  shows "sentCount (trySendSetup completed t setupComplete attemptCount) =
           (if completed (Suc attemptCount) then 0
            else Suc (sentCount (trySendSetup completed t False (Suc attemptCount))))"
    and "warningCount (trySendSetup completed t setupComplete attemptCount) =
           (if completed (Suc attemptCount) then 0
            else warningCount (trySendSetup completed t False (Suc attemptCount)))"
    and "retryDelays (trySendSetup completed t setupComplete attemptCount) =
           (2000 + Suc attemptCount * 1000) #
           (if completed (Suc attemptCount) then []
            else retryDelays (trySendSetup completed t False (Suc attemptCount)))"
  by (auto simp: trySendSetup_step[OF assms] sentCount_simps warningCount_simps retryDelays_simps)

lemma sentCount_bound:
  "sentCount (trySendSetup completed t setupComplete attemptCount) \<le> maxAttempts - attemptCount"
proof (induction "maxAttempts - attemptCount" arbitrary: attemptCount setupComplete)
  case 0
  then show ?case using trySendSetup_stop[of setupComplete attemptCount completed t] by simp
next
  case (Suc n)
  show ?case
  proof (cases setupComplete)
    case True
    then show ?thesis using trySendSetup_stop[of setupComplete attemptCount completed t] by simp
  next
    case False
    have lt: "attemptCount < maxAttempts" using Suc.hyps(2) by simp
    have "sentCount (trySendSetup completed t False (Suc attemptCount))
            \<le> maxAttempts - Suc attemptCount"
      using Suc.hyps(2) by (intro Suc.hyps(1)) simp
    then show ?thesis using lt
      by (auto simp: trySendSetup_counts(1)[OF False lt])
  qed
qed

lemma retryDelays_bound:
  "length (retryDelays (trySendSetup completed t setupComplete attemptCount))
     \<le> maxAttempts - attemptCount"
proof (induction "maxAttempts - attemptCount" arbitrary: attemptCount setupComplete)
  case 0
  then show ?case using trySendSetup_stop[of setupComplete attemptCount completed t] by simp
next
  case (Suc n)
  show ?case
  proof (cases setupComplete)
    case True
    then show ?thesis using trySendSetup_stop[of setupComplete attemptCount completed t] by simp
  next
    case False
    have lt: "attemptCount < maxAttempts" using Suc.hyps(2) by simp
    have "length (retryDelays (trySendSetup completed t False (Suc attemptCount)))
            \<le> maxAttempts - Suc attemptCount"
      using Suc.hyps(2) by (intro Suc.hyps(1)) simp
    then show ?thesis using lt
      by (auto simp: trySendSetup_counts(3)[OF False lt])
  qed
qed

lemma retryDelays_nth:
  "i < length (retryDelays (trySendSetup completed t setupComplete attemptCount)) \<Longrightarrow>
     retryDelays (trySendSetup completed t setupComplete attemptCount) ! i
       = 2000 + (attemptCount + 1 + i) * 1000"
proof (induction "maxAttempts - attemptCount" arbitrary: attemptCount setupComplete i)
  case 0
  then show ?case using trySendSetup_stop[of setupComplete attemptCount completed t] by simp
next
  case (Suc n)
  show ?case
  proof (cases setupComplete)
    case True
    then show ?thesis
      using Suc.prems trySendSetup_stop[of setupComplete attemptCount completed t] by simp
  next
    case False
    have lt: "attemptCount < maxAttempts" using Suc.hyps(2) by simp
    note d = trySendSetup_counts(3)[OF False lt, of completed t]
    show ?thesis
    proof (cases i)
      case 0
      then show ?thesis by (simp add: d)
    next
      case (Suc j)
      with Suc.prems have c: "\<not> completed (Suc attemptCount)"
        and j: "j < length (retryDelays (trySendSetup completed t False (Suc attemptCount)))"
        by (auto simp: d split: if_splits)
      have "retryDelays (trySendSetup completed t False (Suc attemptCount)) ! j
              = 2000 + (Suc attemptCount + 1 + j) * 1000"
        using Suc.hyps(2) j by (intro Suc.hyps(1)) simp_all
      then show ?thesis using c Suc by (simp add: d)
    qed
  qed
qed

lemma warningCount_bound:
  "warningCount (trySendSetup completed t setupComplete attemptCount) \<le> 1"
proof (induction "maxAttempts - attemptCount" arbitrary: attemptCount setupComplete)
  case 0
  then show ?case using trySendSetup_stop[of setupComplete attemptCount completed t] by simp
next
  case (Suc n)
  show ?case
  proof (cases setupComplete)
    case True
    then show ?thesis using trySendSetup_stop[of setupComplete attemptCount completed t] by simp
  next
    case False
    have lt: "attemptCount < maxAttempts" using Suc.hyps(2) by simp
    have "warningCount (trySendSetup completed t False (Suc attemptCount)) \<le> 1"
      using Suc.hyps(2) by (intro Suc.hyps(1)) simp
    then show ?thesis using lt
      by (auto simp: trySendSetup_counts(2)[OF False lt])
  qed
qed

lemma never_completed:
  assumes "\<forall>k. attemptCount < k \<and> k \<le> maxAttempts \<longrightarrow> \<not> completed k"
    and "attemptCount \<le> maxAttempts"
  shows "sentCount (trySendSetup completed t False attemptCount) = maxAttempts - attemptCount
       \<and> warningCount (trySendSetup completed t False attemptCount) = 1"
  using assms
proof (induction "maxAttempts - attemptCount" arbitrary: attemptCount)
  case 0
  then show ?case using trySendSetup_stop[of False attemptCount completed t] by simp
next
  case (Suc n)
  have lt: "attemptCount < maxAttempts" using Suc.hyps(2) by simp
  have c: "\<not> completed (Suc attemptCount)" using Suc.prems(1) lt by simp
  have "sentCount (trySendSetup completed t False (Suc attemptCount)) = maxAttempts - Suc attemptCount
       \<and> warningCount (trySendSetup completed t False (Suc attemptCount)) = 1"
    using Suc.hyps(2) Suc.prems lt by (intro Suc.hyps(1)) auto
  then show ?case using lt c
    by (simp add: trySendSetup_counts[OF _ lt])
qed

lemma completed_at:
  assumes "attemptCount < k" "k \<le> maxAttempts" "completed k"
    and "\<forall>j. attemptCount < j \<and> j < k \<longrightarrow> \<not> completed j"
  shows "sentCount (trySendSetup completed t False attemptCount) = k - Suc attemptCount
       \<and> warningCount (trySendSetup completed t False attemptCount) = 0
       \<and> length (retryDelays (trySendSetup completed t False attemptCount)) = k - attemptCount"
  using assms
proof (induction "k - attemptCount" arbitrary: attemptCount)
  case 0
  then show ?case by simp
next
  case (Suc n)
  have lt: "attemptCount < maxAttempts" using Suc.prems by simp
  show ?case
  proof (cases "Suc attemptCount = k")
    case True
    then show ?thesis using Suc.prems(3) lt
      by (simp add: trySendSetup_counts[OF _ lt])
  next
    case False
    then have lt2: "Suc attemptCount < k" using Suc.prems(1) by simp
    have c: "\<not> completed (Suc attemptCount)" using Suc.prems(4) lt2 by simp
    have "sentCount (trySendSetup completed t False (Suc attemptCount)) = k - Suc (Suc attemptCount)
       \<and> warningCount (trySendSetup completed t False (Suc attemptCount)) = 0
       \<and> length (retryDelays (trySendSetup completed t False (Suc attemptCount))) = k - Suc attemptCount"
      using Suc.hyps(2) Suc.prems lt2 by (intro Suc.hyps(1)) auto
    then show ?thesis using lt c lt2
      by (simp add: trySendSetup_counts[OF _ lt] Suc_diff_Suc)
  qed
qed

lemma onDidOpenTerminal_sentCount:
  "sentCount (onDidOpenTerminal shouldAutoSetup w completed t name) \<le> 10"
  using sentCount_bound[of completed t False 0]
  by (simp add: onDidOpenTerminal_def sentCount_def isSendText_def maxAttempts_def
        split: option.split)

text \<open>
  Claim C9, as amended. In every run of the automatic setup the command is sent at most
  10 times and at most 10 timers are registered; the timer of attempt \<open>i + 1\<close> has the
  delay \<open>3000 + 1000 * i\<close> ms, so the delay grows with every attempt. When the setup is
  never seen to be complete, the command is sent 10 times and then one warning is shown.
  When it is first seen complete at the timer of attempt \<open>k\<close>, the command has been sent
  \<open>k - 1\<close> times, nothing is sent afterwards and no warning is shown.
\<close>

theorem setup_retry_bounded:
  "sentCount (trySendSetup completed t False 0) \<le> 10
   \<and> sentCount (onDidOpenTerminal shouldAutoSetup w completed t name) \<le> 10
   \<and> length (retryDelays (trySendSetup completed t False 0)) \<le> 10
   \<and> (\<forall>i < length (retryDelays (trySendSetup completed t False 0)).
         retryDelays (trySendSetup completed t False 0) ! i = 3000 + i * 1000)
   \<and> warningCount (trySendSetup completed t False 0) \<le> 1
   \<and> ((\<forall>k. 0 < k \<and> k \<le> 10 \<longrightarrow> \<not> completed k) \<longrightarrow>
        sentCount (trySendSetup completed t False 0) = 10
      \<and> warningCount (trySendSetup completed t False 0) = 1)
   \<and> (0 < k \<and> k \<le> 10 \<and> completed k \<and> (\<forall>j. 0 < j \<and> j < k \<longrightarrow> \<not> completed j) \<longrightarrow>
        sentCount (trySendSetup completed t False 0) = k - 1
      \<and> length (retryDelays (trySendSetup completed t False 0)) = k
      \<and> warningCount (trySendSetup completed t False 0) = 0)"
  using sentCount_bound[of completed t False 0] retryDelays_bound[of completed t False 0]
    retryDelays_nth[of _ completed t False 0]
    warningCount_bound[of completed t False 0] never_completed[of 0 completed t]
    completed_at[of 0 k completed t]
    onDidOpenTerminal_sentCount[of shouldAutoSetup w completed t name]
  by (simp add: maxAttempts_def)

text \<open>
  Claim C9 as stated fails on the delay: in the run in which the setup never completes,
  the ten timers have ten different delays, from 3 to 12 seconds.
\<close>

theorem setup_retry_counterexample:
  "retryDelays (trySendSetup (\<lambda>k. False) 0 False 0)
     = [3000, 4000, 5000, 6000, 7000, 8000, 9000, 10000, 11000, 12000]"
  by (simp add: trySendSetup.simps maxAttempts_def retryDelays_simps Let_def)

text \<open>
  The amended claim C9 on the run that completes before the third timer fires, and on
  the run that never completes.
\<close>

theorem setup_retry_witness:
  "sentCount (trySendSetup (\<lambda>k. k = 3) 0 False 0) = 2
   \<and> retryDelays (trySendSetup (\<lambda>k. k = 3) 0 False 0) = [3000, 4000, 5000]
   \<and> warningCount (trySendSetup (\<lambda>k. k = 3) 0 False 0) = 0
   \<and> sentCount (trySendSetup (\<lambda>k. False) 0 False 0) = 10
   \<and> warningCount (trySendSetup (\<lambda>k. False) 0 False 0) = 1"
proof -
  have d: "retryDelays (trySendSetup (\<lambda>k. k = 3) 0 False 0) = [3000, 4000, 5000]"
    by (simp add: trySendSetup.simps maxAttempts_def retryDelays_simps Let_def)
  show ?thesis
    using setup_retry_bounded[of "\<lambda>k. k = 3" 0 _ _ _ 3] setup_retry_bounded[of "\<lambda>k. False" 0 _ _ _ 1] d
    by simp
qed

subsection \<open>The value field written by the producer\<close>

lemma helperExportValue_same:
  "helperExportValue m (Some (Numeric cls a)) = exportValue m (Some (Numeric cls a))"
  "helperExportValue m (Some (Logical a)) = exportValue m (Some (Logical a))"
  "helperExportValue m (Some (CharRow s)) = exportValue m (Some (CharRow s))"
  by (simp_all add: helperExportValue_def helperValueText_def exportValue_def)

text \<open>
  A string scalar is exported whole, whatever the number of its characters: the script
  measures it with \<^verbatim>\<open>length\<close>, which counts the elements of the string array.
\<close>

lemma exportValue_string_scalar:
  "exportValue m (Some (StringScalar s)) = s \<and> helperExportValue m (Some (StringScalar s)) = s"
  by (simp add: helperExportValue_def helperValueText_def exportValue_def)

text \<open>An error of \<^verbatim>\<open>evalin\<close> and an error of \<^verbatim>\<open>mat2str\<close> end in the same \<^verbatim>\<open>catch\<close> block.\<close>

lemma exportValue_caught:
  "exportValue m None = ''<error reading value>''"
  "numel m a \<le> 10 \<Longrightarrow> mat2str m a = None \<Longrightarrow>
     exportValue m (Some (Numeric cls a)) = ''<error reading value>''"
  "numel m a \<le> 10 \<Longrightarrow> mat2str m a = None \<Longrightarrow>
     exportValue m (Some (Logical a)) = ''<error reading value>''"
  by (simp_all add: exportValue_def)

lemma exportValue_char_row:
  "exportValue m (Some (CharRow s)) = (if length s \<le> 100 then s else take 100 s @ ''...'')"
  by (simp add: exportValue_def)

text \<open>
  Claim C6, as amended. In both versions of the producer script, the \<^verbatim>\<open>value\<close> of a
  numeric or logical variable with at most 10 elements is its printed contents when
  \<^verbatim>\<open>mat2str\<close> prints it and \<^verbatim>\<open><error reading value>\<close> when \<^verbatim>\<open>mat2str\<close> raises an error, and
  with more than 10 elements it is the summary \<^verbatim>\<open>class [n elements]\<close>. The \<^verbatim>\<open>value\<close> of a
  character row vector is the text itself when it has at most 100 characters, and
  otherwise its first 100 characters followed by \<^verbatim>\<open>...\<close>, 103 characters in all; in both
  cases it starts with the first 100 characters of the text.
\<close>

theorem exported_value:
  "(numel m a \<le> 10 \<and> mat2str m a = Some printed \<longrightarrow>
      exportValue m (Some (Numeric cls a)) = printed
    \<and> exportValue m (Some (Logical a)) = printed)
   \<and> (numel m a \<le> 10 \<and> mat2str m a = None \<longrightarrow>
      exportValue m (Some (Numeric cls a)) = ''<error reading value>''
    \<and> exportValue m (Some (Logical a)) = ''<error reading value>'')
   \<and> (10 < numel m a \<longrightarrow>
      exportValue m (Some (Numeric cls a)) = cls @ '' ['' @ showNat (numel m a) @ '' elements]''
    \<and> exportValue m (Some (Logical a)) = ''logical ['' @ showNat (numel m a) @ '' elements]'')
   \<and> (length s \<le> 100 \<longrightarrow> exportValue m (Some (CharRow s)) = s)
   \<and> (100 < length s \<longrightarrow>
      exportValue m (Some (CharRow s)) = take 100 s @ ''...''
    \<and> length (exportValue m (Some (CharRow s))) = 103)
   \<and> take 100 (exportValue m (Some (CharRow s))) = take 100 s
   \<and> helperExportValue m (Some (Numeric cls a)) = exportValue m (Some (Numeric cls a))
   \<and> helperExportValue m (Some (Logical a)) = exportValue m (Some (Logical a))
   \<and> helperExportValue m (Some (CharRow s)) = exportValue m (Some (CharRow s))"
proof -
  have n: "exportValue m (Some (Numeric cls a)) = printed
         \<and> exportValue m (Some (Logical a)) = printed"
    if "numel m a \<le> 10" "mat2str m a = Some printed"
    using that by (simp add: exportValue_def)
  have e: "exportValue m (Some (Numeric cls a)) = ''<error reading value>''
         \<and> exportValue m (Some (Logical a)) = ''<error reading value>''"
    if "numel m a \<le> 10" "mat2str m a = None"
    using that by (simp add: exportValue_caught)
  have b: "exportValue m (Some (Numeric cls a))
             = cls @ '' ['' @ showNat (numel m a) @ '' elements]''
         \<and> exportValue m (Some (Logical a))
             = ''logical ['' @ showNat (numel m a) @ '' elements]''"
    if "10 < numel m a"
    using that by (simp add: exportValue_def)
  have t: "take 100 (exportValue m (Some (CharRow s))) = take 100 s"
    by (simp add: exportValue_char_row)
  have l: "length (exportValue m (Some (CharRow s))) = 103" if "100 < length s"
    using that by (simp add: exportValue_char_row)
  show ?thesis
    using n e b t l by (simp add: helperExportValue_same exportValue_char_row)
qed

text \<open>
  Claim C6 as stated fails on a text of 101 characters: the exported value has 103
  characters, not at most 100.
\<close>

theorem exported_value_counterexample:
  "length (replicate 101 CHR ''a'') = 101
   \<and> length (exportValue exampleMatlab (Some (CharRow (replicate 101 CHR ''a'')))) = 103
   \<and> length (helperExportValue exampleMatlab (Some (CharRow (replicate 101 CHR ''a'')))) = 103"
  by (simp add: helperExportValue_def helperValueText_def exportValue_def)

text \<open>
  The amended claim C6 on rows of 3 and of 12 numbers, on a block of 2 by 2 by 2 numbers,
  and on texts of 5 and of 101 characters.
\<close>

theorem exported_value_witness:
  "exportValue exampleMatlab (Some (Numeric ''double'' (Row [1, 2, 3]))) = ''[1 2 3]''
   \<and> exportValue exampleMatlab
        (Some (Numeric ''double'' (Row [1, 2, 3, 4, 5, 6, 7, 8, 9, 10, 11, 12])))
       = ''double [12 elements]''
   \<and> exportValue exampleMatlab (Some (Numeric ''double'' (Block [2, 2, 2])))
       = ''<error reading value>''
   \<and> exportValue exampleMatlab (Some (CharRow ''hello'')) = ''hello''
   \<and> exportValue exampleMatlab (Some (CharRow (replicate 101 CHR ''a'')))
       = replicate 100 CHR ''a'' @ ''...''"
  using exported_value[of exampleMatlab "Row [1, 2, 3]" "''[1 2 3]''" "''double''" "''hello''"]
    exported_value[of exampleMatlab "Row [1, 2, 3, 4, 5, 6, 7, 8, 9, 10, 11, 12]" "[]"
      "''double''" "replicate 101 CHR ''a''"]
    exported_value[of exampleMatlab "Block [2, 2, 2]" "[]" "''double''" "[]"]
  by (simp add: exampleMatlab_def mat2strDims_def showNat.simps digitChar_def)

end
